theory Spec2Isabelle
  imports Main
begin

section \<open>Strings\<close>

text \<open>
  JavaScript strings are modelled as \<open>string\<close>; a \<open>char\<close> is read as the code point
  U+0000..U+00FF, so the model covers the Latin-1 strings. The empty string stands for
  every falsy field of a request body (a missing field, \<open>null\<close>, \<open>""\<close>): the
  controllers test them with \<open>!field\<close> only.
\<close>

definition isWhiteSpace :: "char \<Rightarrow> bool" where
  \<comment> \<open>\<open>\s\<close> and \<open>String.prototype.trim\<close>: TAB, LF, VT, FF, CR, SP, NBSP\<close>
  "isWhiteSpace c =
     (c \<in> set [CHR 0x09, CHR 0x0A, CHR 0x0B, CHR 0x0C, CHR 0x0D, CHR 0x20, CHR 0xA0])"

definition trim :: "string \<Rightarrow> string" where
  "trim s = rev (dropWhile isWhiteSpace (rev (dropWhile isWhiteSpace s)))"

definition toLowerChar :: "char \<Rightarrow> char" where
  "toLowerChar c =
     (let n = of_char c :: nat
      in if (65 \<le> n \<and> n \<le> 90) \<or> (192 \<le> n \<and> n \<le> 222 \<and> n \<noteq> 215)
         then char_of (n + 32) else c)"

definition toLowerCase :: "string \<Rightarrow> string" where
  "toLowerCase s = map toLowerChar s"

definition mentions :: "string \<Rightarrow> string \<Rightarrow> bool" where
  \<comment> \<open>the reason \<open>s\<close> mentions \<open>t\<close>: \<open>t\<close> occurs in \<open>s\<close> as a contiguous substring\<close>
  "mentions s t = list_ex (\<lambda>i. take (length t) (drop i s) = t) [0..<Suc (length s)]"

subsection \<open>The regular expressions of the controllers\<close>

definition isUpperAZ :: "char \<Rightarrow> bool" where
  "isUpperAZ c = (c \<in> set ''ABCDEFGHIJKLMNOPQRSTUVWXYZ'')"

definition isLowerAZ :: "char \<Rightarrow> bool" where
  "isLowerAZ c = (c \<in> set ''abcdefghijklmnopqrstuvwxyz'')"

definition isDigit :: "char \<Rightarrow> bool" where
  "isDigit c = (c \<in> set ''0123456789'')"

definition isSpecialChar :: "char \<Rightarrow> bool" where
  \<comment> \<open>the class \<open>[!@#$%^&*(),.?":{}|<>]\<close>; \<open>CHR 0x22\<close> is the double quote\<close>
  "isSpecialChar c = (c \<in> set (''!@#$%^&*(),.?'' @ [CHR 0x22] @ '':{}|<>''))"

definition emailAtom :: "char \<Rightarrow> bool" where
  \<comment> \<open>the class \<open>[^\s@]\<close>\<close>
  "emailAtom c = (\<not> isWhiteSpace c \<and> c \<noteq> CHR ''@'')"

definition isValidEmail :: "string \<Rightarrow> bool" where
  \<comment> \<open>\<open>/^[^\s@]+@[^\s@]+\.[^\s@]+$/\<close>: atoms, one \<open>@\<close>, atoms with a dot that is
     neither the first nor the last character after the \<open>@\<close>\<close>
  "isValidEmail email =
     (let local = takeWhile emailAtom email;
          rest = dropWhile emailAtom email
      in local \<noteq> [] \<and> rest \<noteq> [] \<and> hd rest = CHR ''@'' \<and>
         list_all emailAtom (tl rest) \<and>
         list_ex (\<lambda>i. tl rest ! i = CHR ''.'') [1..<length (tl rest) - 1])"

section \<open>The password policy\<close>

record validation =
  isValid :: bool
  message :: "string option"

definition validatePassword :: "string \<Rightarrow> validation" where
  "validatePassword password =
     (if password = [] \<or> length password < 8
      then \<lparr>isValid = False, message = Some ''Password must be at least 8 characters long''\<rparr>
      else
        let hasUpperCase = list_ex isUpperAZ password;
            hasLowerCase = list_ex isLowerAZ password;
            hasNumbers = list_ex isDigit password;
            hasSpecialChar = list_ex isSpecialChar password
        in if \<not> hasUpperCase \<or> \<not> hasLowerCase \<or> \<not> hasNumbers \<or> \<not> hasSpecialChar
           then \<lparr>isValid = False,
                 message = Some (''Password must contain at least one uppercase letter, '' @
                   ''one lowercase letter, one number, and one special character'')\<rparr>
           else \<lparr>isValid = True, message = None\<rparr>)"

text \<open>
  What it means for a rejection reason to list the missing character classes: the reason
  names every class the password lacks. The message of the source calls the digit class
  "number".
\<close>

definition listsMissingClasses :: "string \<Rightarrow> string \<Rightarrow> bool" where
  "listsMissingClasses password reason =
     ((list_ex isUpperAZ password \<or> mentions reason ''uppercase'') \<and>
      (list_ex isLowerAZ password \<or> mentions reason ''lowercase'') \<and>
      (list_ex isDigit password \<or> mentions reason ''number'') \<and>
      (list_ex isSpecialChar password \<or> mentions reason ''special character''))"

section \<open>The account document\<close>

text \<open>
  A \<open>Date\<close> is its time value: the milliseconds since the epoch, an \<open>int\<close>. An optional
  field is an \<open>option\<close>: \<open>None\<close> stands for both \<open>undefined\<close> and \<open>null\<close>, which no
  code of the repository tells apart.
\<close>

record pendingCode =
  codeHash :: string
  expiresAt :: int

record profile_fields =
  firstName :: "string option"
  lastName :: "string option"
  avatar :: "string option"

record user =
  u_id :: string
  email :: string
  passwordHash :: string
  name :: "string option"
  emailVerified :: bool
  emailVerification :: "pendingCode option"
  passwordReset :: "pendingCode option"
  profile :: profile_fields
  lastLogin :: "int option"
  loginAttempts :: int
  accountLocked :: bool
  lockUntil :: "int option"
  isActive :: bool
  createdAt :: int
  updatedAt :: int

definition fullName :: "user \<Rightarrow> string" where
  "fullName u =
     (case (firstName (profile u), lastName (profile u)) of
        (Some f, Some l) \<Rightarrow>
          if f \<noteq> [] \<and> l \<noteq> [] then f @ '' '' @ l
          else (case name u of Some n \<Rightarrow> n | None \<Rightarrow> [])
      | _ \<Rightarrow> (case name u of Some n \<Rightarrow> n | None \<Rightarrow> []))"

definition isLocked :: "int \<Rightarrow> user \<Rightarrow> bool" where
  \<comment> \<open>the virtual \<open>isLocked\<close>, read when \<open>Date.now()\<close> is \<open>t\<close>\<close>
  "isLocked t u =
     (accountLocked u \<and> (case lockUntil u of None \<Rightarrow> False | Some l \<Rightarrow> l > t))"

subsection \<open>The collection\<close>

text \<open>
  The collection is the list of its documents. It changes through \<open>save\<close> only: the
  store is taken to be reachable, and nothing else (no TTL monitor, no other client)
  writes to it.
\<close>

type_synonym db = "user list"

definition findOne :: "string \<Rightarrow> db \<Rightarrow> user option" where
  \<comment> \<open>\<open>User.findOne({ email })\<close>\<close>
  "findOne e d = find (\<lambda>u. email u = e) d"

definition findById :: "string \<Rightarrow> db \<Rightarrow> user option" where
  "findById i d = find (\<lambda>u. u_id u = i) d"

definition findByEmail :: "string \<Rightarrow> db \<Rightarrow> user option" where
  \<comment> \<open>the static \<open>findByEmail\<close>: active accounts only\<close>
  "findByEmail e d = find (\<lambda>u. email u = trim (toLowerCase e) \<and> isActive u) d"

definition dropExpired :: "int \<Rightarrow> pendingCode option \<Rightarrow> pendingCode option" where
  "dropExpired t c =
     (case c of None \<Rightarrow> None | Some p \<Rightarrow> if expiresAt p < t then None else Some p)"

definition pre_save :: "int \<Rightarrow> user \<Rightarrow> user" where
  \<comment> \<open>the \<open>pre('save')\<close> hook, run when the clock reads \<open>t\<close>\<close>
  "pre_save t u =
     u\<lparr>updatedAt := t,
       emailVerification := dropExpired t (emailVerification u),
       passwordReset := dropExpired t (passwordReset u)\<rparr>"

definition save :: "int \<Rightarrow> user \<Rightarrow> db \<Rightarrow> db" where
  \<comment> \<open>\<open>save()\<close> of a document read from the collection: it replaces the stored one\<close>
  "save t u d = map (\<lambda>v. if u_id v = u_id u then pre_save t u else v) d"

definition create :: "int \<Rightarrow> user \<Rightarrow> db \<Rightarrow> db option" where
  \<comment> \<open>\<open>save()\<close> of a new document; the unique indexes on \<open>_id\<close> and \<open>email\<close> refuse a
     duplicate\<close>
  "create t u d =
     (if list_ex (\<lambda>v. u_id v = u_id u \<or> email v = email u) d then None
      else Some (d @ [pre_save t u]))"

subsection \<open>The lock methods of the User model\<close>

datatype js_value = JsFalse | JsNull | JsTrue

definition truthy :: "js_value \<Rightarrow> bool" where
  "truthy v = (v = JsTrue)"

definition isAccountLocked :: "int \<Rightarrow> user \<Rightarrow> js_value" where
  \<comment> \<open>\<open>this.accountLocked && this.lockUntil && this.lockUntil > Date.now()\<close>\<close>
  "isAccountLocked t u =
     (if \<not> accountLocked u then JsFalse
      else case lockUntil u of None \<Rightarrow> JsNull
           | Some l \<Rightarrow> if l > t then JsTrue else JsFalse)"

definition incrementLoginAttempts :: "int \<Rightarrow> int \<Rightarrow> user \<Rightarrow> db \<Rightarrow> db" where
  \<comment> \<open>\<open>t\<close> is \<open>Date.now()\<close>, \<open>ts\<close> the clock of the save\<close>
  "incrementLoginAttempts t ts u d =
     (let maxAttempts = 5;
          lockTime = 30 * 60 * 1000;
          u1 = u\<lparr>loginAttempts := loginAttempts u + 1\<rparr>;
          u2 = (if loginAttempts u1 \<ge> maxAttempts
                then u1\<lparr>accountLocked := True, lockUntil := Some (t + lockTime)\<rparr>
                else u1)
      in save ts u2 d)"

definition resetLoginAttempts :: "int \<Rightarrow> int \<Rightarrow> user \<Rightarrow> db \<Rightarrow> db" where
  "resetLoginAttempts t ts u d =
     save ts (u\<lparr>loginAttempts := 0, accountLocked := False, lockUntil := None,
                lastLogin := Some t\<rparr>) d"

section \<open>Bearer tokens\<close>

text \<open>
  The controller and the middleware leave the tokens to the jsonwebtoken library, whose
  code is not under \<open>src/\<close>. Its tokens are modelled symbolically, as the TokenIssuer
  of the specification describes them: a token is the payload it carries (subject id,
  email, expiry) together with the secret that signed it, or a string that does not
  parse. The library counts time in whole seconds: \<open>iat\<close> is
  \<open>floor (Date.now() / 1000)\<close>, \<open>exp\<close> is \<open>iat\<close> plus the span, and \<open>verify\<close> reports
  \<open>TokenExpiredError\<close> once the clock's second has reached \<open>exp\<close>.
\<close>

record payload =
  p_id :: string
  p_email :: string
  p_iat :: int
  p_exp :: int

datatype token = Signed payload string | Malformed string

datatype jwt_error = TokenExpiredError | JsonWebTokenError | NotBeforeError

definition jwt_sign :: "string \<Rightarrow> string \<Rightarrow> string \<Rightarrow> int \<Rightarrow> int \<Rightarrow> token option" where
  \<comment> \<open>Modelled from the spec: \<open>jwt.sign({ id, email }, secret, { expiresIn })\<close> of the
     jsonwebtoken library, at clock \<open>t\<close>: the token carries the id, the email and the
     expiry, signed with the secret; \<open>None\<close> when it throws for want of a secret\<close>
  "jwt_sign i e secret expiresIn t =
     (if secret = [] then None
      else Some (Signed \<lparr>p_id = i, p_email = e, p_iat = t div 1000,
                         p_exp = t div 1000 + expiresIn\<rparr> secret))"

definition jwt_verify :: "token \<Rightarrow> string \<Rightarrow> int \<Rightarrow> jwt_error + payload" where
  \<comment> \<open>Modelled from the spec: \<open>jwt.verify(token, secret)\<close> of the jsonwebtoken library,
     at clock \<open>t\<close>: it fails on a malformed token or a bad signature, fails as expired
     once the expiry is reached, and returns the payload otherwise\<close>
  "jwt_verify tok secret t =
     (case tok of
        Malformed _ \<Rightarrow> Inl JsonWebTokenError
      | Signed p k \<Rightarrow>
          if secret = [] \<or> k \<noteq> secret then Inl JsonWebTokenError
          else if t div 1000 \<ge> p_exp p then Inl TokenExpiredError
          else Inr p)"

section \<open>Requests and responses\<close>

datatype json =
  JNull | JBool bool | JNum int | JStr string | JDate int | JToken token
  | JObj "(string \<times> json) list"

record response =
  status :: nat
  body :: json

datatype error =
  AppError string nat
  | ValidationError "string list"

definition fail :: "nat \<Rightarrow> string \<Rightarrow> response" where
  \<comment> \<open>\<open>res.status(c).json({ error: m })\<close>\<close>
  "fail c m = \<lparr>status = c, body = JObj [(''error'', JStr m)]\<rparr>"

definition done_with :: "nat \<Rightarrow> string \<Rightarrow> response" where
  \<comment> \<open>\<open>res.status(c).json({ message: m })\<close>\<close>
  "done_with c m = \<lparr>status = c, body = JObj [(''message'', JStr m)]\<rparr>"

text \<open>
  The process: its environment variables, and the library functions whose results the
  controllers only pass on: the two of bcrypt, and \<open>sha256_hex\<close>, the hexadecimal
  SHA-256 digest of Node's \<open>crypto\<close>. They are not code of the repository and are taken
  as they come: a deterministic function each. A numeric variable is the number it
  denotes, 0 when it is unset or not a number; \<open>JWT_EXPIRES_IN\<close> is the span in seconds
  that the variable denotes, \<open>None\<close> when it is unset or empty.
\<close>

record env =
  NODE_ENV :: string
  JWT_SECRET :: string
  JWT_EXPIRES_IN :: "int option"
  CODE_LENGTH :: int
  EMAIL_CODE_EXPIRES_MIN :: int
  mailerInitialized :: bool
  bcrypt_hash :: "string \<Rightarrow> string \<Rightarrow> string"
  bcrypt_compare :: "string \<Rightarrow> string \<Rightarrow> bool"
  sha256_hex :: "string \<Rightarrow> string"

definition CONFIG_CODE_LENGTH :: "env \<Rightarrow> int" where
  \<comment> \<open>\<open>Number(process.env.CODE_LENGTH) || 6\<close>\<close>
  "CONFIG_CODE_LENGTH ev = (if CODE_LENGTH ev = 0 then 6 else CODE_LENGTH ev)"

definition CONFIG_CODE_EXPIRES_MIN :: "env \<Rightarrow> int" where
  \<comment> \<open>\<open>Number(process.env.EMAIL_CODE_EXPIRES_MIN) || 15\<close>\<close>
  "CONFIG_CODE_EXPIRES_MIN ev =
     (if EMAIL_CODE_EXPIRES_MIN ev = 0 then 15 else EMAIL_CODE_EXPIRES_MIN ev)"

definition CONFIG_JWT_EXPIRES_IN :: "env \<Rightarrow> int" where
  \<comment> \<open>\<open>process.env.JWT_EXPIRES_IN || '7d'\<close>, in seconds\<close>
  "CONFIG_JWT_EXPIRES_IN ev = (case JWT_EXPIRES_IN ev of None \<Rightarrow> 604800 | Some w \<Rightarrow> w)"

definition hashCode :: "env \<Rightarrow> string \<Rightarrow> string" where
  \<comment> \<open>\<open>crypto.createHash('sha256').update(code).digest('hex')\<close>\<close>
  "hashCode ev code = sha256_hex ev code"

text \<open>
  What one request reads from outside: the clock of the controller and the clock of the
  save that follows it, the draws of \<open>Math.floor(Math.random() * 10)\<close>, the salt of
  \<open>bcrypt.genSalt\<close>, the \<open>_id\<close> of a new document, and whether the transport delivers
  the mail.
\<close>

record io =
  now :: int
  saveTime :: int
  draw :: "nat \<Rightarrow> nat"
  salt :: string
  newId :: string
  transportDelivers :: bool

definition digitChar :: "nat \<Rightarrow> char" where
  "digitChar n = ''0123456789'' ! (n mod 10)"

definition generateNumericCode :: "int \<Rightarrow> (nat \<Rightarrow> nat) \<Rightarrow> string" where
  \<comment> \<open>one digit for every \<open>i\<close> from 0 below \<open>len\<close>; \<open>rnd i\<close> is the \<open>i\<close>-th draw\<close>
  "generateNumericCode len rnd = map (\<lambda>i. digitChar (rnd i)) [0..<nat len]"

definition addMinutes :: "int \<Rightarrow> int \<Rightarrow> int" where
  "addMinutes date minutes = date + minutes * 60000"

definition sendMail :: "env \<Rightarrow> io \<Rightarrow> string \<Rightarrow> string \<Rightarrow> string \<Rightarrow> bool" where
  \<comment> \<open>\<open>True\<close> when the promise resolves, \<open>False\<close> when it rejects with "Email delivery
     failed"; the content is the text alternative of the mail\<close>
  "sendMail ev i to subject content =
     (mailerInitialized ev \<and> to \<noteq> [] \<and> subject \<noteq> [] \<and> content \<noteq> [] \<and> isValidEmail to \<and>
      transportDelivers i)"

definition sendVerificationEmail :: "env \<Rightarrow> io \<Rightarrow> string \<Rightarrow> string \<Rightarrow> bool" where
  "sendVerificationEmail ev i userEmail code =
     sendMail ev i userEmail ''Verify your email address'' (''Your verification code is '' @ code)"

definition sendResetEmail :: "env \<Rightarrow> io \<Rightarrow> string \<Rightarrow> string \<Rightarrow> bool" where
  "sendResetEmail ev i userEmail code =
     sendMail ev i userEmail ''Password Reset Code'' (''Your password reset code is '' @ code)"

subsection \<open>Views of an account\<close>

definition opt :: "('a \<Rightarrow> json) \<Rightarrow> 'a option \<Rightarrow> json" where
  "opt f x = (case x of None \<Rightarrow> JNull | Some v \<Rightarrow> f v)"

definition present :: "string \<Rightarrow> ('a \<Rightarrow> json) \<Rightarrow> 'a option \<Rightarrow> (string \<times> json) list" where
  "present k f x = (case x of None \<Rightarrow> [] | Some v \<Rightarrow> [(k, f v)])"

definition profile_json :: "profile_fields \<Rightarrow> json" where
  "profile_json p =
     JObj (present ''firstName'' JStr (firstName p) @ present ''lastName'' JStr (lastName p) @
           present ''avatar'' JStr (avatar p))"

definition code_json :: "pendingCode \<Rightarrow> json" where
  "code_json c = JObj [(''codeHash'', JStr (codeHash c)), (''expiresAt'', JDate (expiresAt c))]"

definition toSafeObject :: "user \<Rightarrow> json" where
  "toSafeObject u =
     JObj [(''id'', JStr (u_id u)),
           (''email'', JStr (email u)),
           (''name'', opt JStr (name u)),
           (''fullName'', JStr (fullName u)),
           (''emailVerified'', JBool (emailVerified u)),
           (''profile'', profile_json (profile u)),
           (''lastLogin'', opt JDate (lastLogin u)),
           (''isActive'', JBool (isActive u)),
           (''createdAt'', JDate (createdAt u)),
           (''updatedAt'', JDate (updatedAt u))]"

definition signinView :: "user \<Rightarrow> json" where
  \<comment> \<open>the \<open>user\<close> object of the sign-in response\<close>
  "signinView u =
     JObj [(''id'', JStr (u_id u)),
           (''email'', JStr (email u)),
           (''name'', opt JStr (name u)),
           (''emailVerified'', JBool (emailVerified u))]"

definition documentFields :: "user \<Rightarrow> (string \<times> json) list" where
  \<comment> \<open>the stored paths of a document\<close>
  "documentFields u =
     [(''_id'', JStr (u_id u)),
      (''email'', JStr (email u)),
      (''passwordHash'', JStr (passwordHash u))] @
     present ''name'' JStr (name u) @
     [(''emailVerified'', JBool (emailVerified u))] @
     present ''emailVerification'' code_json (emailVerification u) @
     present ''passwordReset'' code_json (passwordReset u) @
     [(''profile'', profile_json (profile u)),
      (''lastLogin'', opt JDate (lastLogin u)),
      (''loginAttempts'', JNum (loginAttempts u)),
      (''accountLocked'', JBool (accountLocked u)),
      (''lockUntil'', opt JDate (lockUntil u)),
      (''isActive'', JBool (isActive u)),
      (''createdAt'', JDate (createdAt u)),
      (''updatedAt'', JDate (updatedAt u))]"

definition virtualFields :: "int \<Rightarrow> user \<Rightarrow> (string \<times> json) list" where
  \<comment> \<open>the virtuals of the schema, and the \<open>id\<close> virtual every schema has\<close>
  "virtualFields t u =
     [(''fullName'', JStr (fullName u)),
      (''isLocked'', JBool (isLocked t u)),
      (''id'', JStr (u_id u))]"

definition delete :: "string \<Rightarrow> (string \<times> json) list \<Rightarrow> (string \<times> json) list" where
  "delete k ret = filter (\<lambda>kv. fst kv \<noteq> k) ret"

definition toJSON :: "int \<Rightarrow> user \<Rightarrow> json" where
  \<comment> \<open>\<open>toJSON\<close> with \<open>virtuals: true\<close>: the virtuals are added, then the transform runs\<close>
  "toJSON t u =
     JObj (delete ''lockUntil'' (delete ''accountLocked'' (delete ''loginAttempts''
          (delete ''passwordReset'' (delete ''emailVerification'' (delete ''passwordHash''
          (documentFields u @ virtualFields t u)))))))"

fun keys :: "json \<Rightarrow> string list" where
  "keys (JObj kvs) = map fst kvs"
| "keys _ = []"

fun field :: "json \<Rightarrow> string \<Rightarrow> json option" where
  "field (JObj kvs) k = map_of kvs k"
| "field _ k = None"

definition sensitiveKeys :: "string list" where
  \<comment> \<open>the stored paths that hold the password hash, the pending codes, the failed-login
     counter and the lock\<close>
  "sensitiveKeys =
     [''passwordHash'', ''emailVerification'', ''passwordReset'', ''loginAttempts'',
      ''accountLocked'', ''lockUntil'']"

section \<open>The authentication controller\<close>

text \<open>
  A controller takes the fields of the request body and the collection, and returns the
  response together with the collection it leaves. The fields are strings; the \<open>catch\<close>
  of a controller is the branch that answers 500.
\<close>

definition normalize :: "string \<Rightarrow> string" where
  \<comment> \<open>\<open>email.toLowerCase().trim()\<close>\<close>
  "normalize e = trim (toLowerCase e)"

definition newUser :: "io \<Rightarrow> string \<Rightarrow> string \<Rightarrow> string option \<Rightarrow> pendingCode \<Rightarrow> user" where
  \<comment> \<open>\<open>new User({...})\<close> with the defaults of the schema\<close>
  "newUser i e h n c =
     \<lparr>u_id = newId i, email = e, passwordHash = h, name = n, emailVerified = False,
      emailVerification = Some c, passwordReset = None,
      profile = \<lparr>firstName = None, lastName = None, avatar = None\<rparr>,
      lastLogin = None, loginAttempts = 0, accountLocked = False, lockUntil = None,
      isActive = True, createdAt = saveTime i, updatedAt = saveTime i\<rparr>"

definition trimmedName :: "string option \<Rightarrow> string option" where
  \<comment> \<open>\<open>name?.trim() || null\<close>\<close>
  "trimmedName n =
     (case n of None \<Rightarrow> None | Some x \<Rightarrow> if trim x = [] then None else Some (trim x))"

definition signup :: "env \<Rightarrow> io \<Rightarrow> string \<Rightarrow> string \<Rightarrow> string option \<Rightarrow> db \<Rightarrow> response \<times> db" where
  "signup ev i email' password name' d =
     (if email' = [] \<or> password = [] then (fail 400 ''Email and password are required'', d)
      else if \<not> isValidEmail email' then (fail 400 ''Please provide a valid email address'', d)
      else if \<not> isValid (validatePassword password)
      then (\<lparr>status = 400,
             body = JObj [(''error'', opt JStr (message (validatePassword password)))]\<rparr>, d)
      else
        (let normalizedEmail = normalize email' in
         case findOne normalizedEmail d of
          Some existingUser \<Rightarrow> (fail 409 ''An account with this email already exists'', d)
        | None \<Rightarrow>
          (let passwordHash' = bcrypt_hash ev password (salt i);
               verificationCode = generateNumericCode (CONFIG_CODE_LENGTH ev) (draw i);
               codeHash' = hashCode ev verificationCode;
               expiresAt' = addMinutes (now i) (CONFIG_CODE_EXPIRES_MIN ev);
               u = newUser i normalizedEmail passwordHash' (trimmedName name')
                     \<lparr>codeHash = codeHash', expiresAt = expiresAt'\<rparr>
           in if passwordHash' = [] \<or> (case name u of None \<Rightarrow> False | Some n \<Rightarrow> length n > 100)
              then (fail 500 ''Failed to create account. Please try again.'', d)
              else (case create (saveTime i) u d of
                None \<Rightarrow> (fail 500 ''Failed to create account. Please try again.'', d)
              | Some d' \<Rightarrow>
                if sendVerificationEmail ev i normalizedEmail verificationCode
                then (done_with 201 (''Account created successfully. '' @
                        ''Please check your email for verification code.''), d')
                else if NODE_ENV ev \<noteq> ''production''
                then (\<lparr>status = 201, body = JObj
                        [(''message'', JStr (''Account created successfully '' @
                            ''(email delivery failed in development).'')),
                         (''devVerificationCode'', JStr verificationCode)]\<rparr>, d')
                else (fail 500 (''Account created but failed to send verification email. '' @
                        ''Please contact support.''), d')))))"

definition verifyEmail :: "env \<Rightarrow> io \<Rightarrow> string \<Rightarrow> string \<Rightarrow> db \<Rightarrow> response \<times> db" where
  "verifyEmail ev i email' code d =
     (if email' = [] \<or> code = []
      then (fail 400 ''Email and verification code are required'', d)
      else if \<not> isValidEmail email' then (fail 400 ''Please provide a valid email address'', d)
      else case findOne (normalize email') d of
        None \<Rightarrow> (fail 400 ''Invalid email or verification code'', d)
      | Some u \<Rightarrow>
        if emailVerified u then (fail 400 ''Email is already verified'', d)
        else (case emailVerification u of
          None \<Rightarrow> (fail 400 ''No verification code found. Please request a new one.'', d)
        | Some c \<Rightarrow>
          if codeHash c = []
          then (fail 400 ''No verification code found. Please request a new one.'', d)
          else if now i > expiresAt c
          then (fail 400 ''Verification code has expired. Please request a new one.'', d)
          else if hashCode ev (trim code) \<noteq> codeHash c
          then (fail 400 ''Invalid verification code'', d)
          else (done_with 200 ''Email verified successfully! You can now sign in.'',
                save (saveTime i) (u\<lparr>emailVerified := True, emailVerification := None\<rparr>) d)))"

definition signin :: "env \<Rightarrow> io \<Rightarrow> string \<Rightarrow> string \<Rightarrow> db \<Rightarrow> response \<times> db" where
  "signin ev i email' password d =
     (if email' = [] \<or> password = [] then (fail 400 ''Email and password are required'', d)
      else if \<not> isValidEmail email' then (fail 400 ''Please provide a valid email address'', d)
      else case findOne (normalize email') d of
        None \<Rightarrow> (fail 401 ''Invalid email or password'', d)
      | Some u \<Rightarrow>
        if \<not> bcrypt_compare ev password (passwordHash u)
        then (fail 401 ''Invalid email or password'', d)
        else if \<not> emailVerified u
        then (fail 403 ''Please verify your email before signing in'', d)
        else (case jwt_sign (u_id u) (email u) (JWT_SECRET ev) (CONFIG_JWT_EXPIRES_IN ev) (now i) of
          None \<Rightarrow> (fail 500 ''Failed to sign in. Please try again.'', d)
        | Some tok \<Rightarrow>
          (\<lparr>status = 200, body = JObj
              [(''message'', JStr ''Signed in successfully''),
               (''token'', JToken tok),
               (''user'', signinView u)]\<rparr>,
           save (saveTime i) (u\<lparr>lastLogin := Some (now i)\<rparr>) d)))"

definition resendVerification :: "env \<Rightarrow> io \<Rightarrow> string \<Rightarrow> db \<Rightarrow> response \<times> db" where
  "resendVerification ev i email' d =
     (if email' = [] then (fail 400 ''Email is required'', d)
      else if \<not> isValidEmail email' then (fail 400 ''Please provide a valid email address'', d)
      else
        (let normalizedEmail = normalize email' in
         case findOne normalizedEmail d of
          None \<Rightarrow> (fail 404 ''No account found with this email address'', d)
        | Some u \<Rightarrow>
          if emailVerified u then (fail 400 ''Email is already verified'', d)
          else
            let verificationCode = generateNumericCode (CONFIG_CODE_LENGTH ev) (draw i);
                codeHash' = hashCode ev verificationCode;
                expiresAt' = addMinutes (now i) (CONFIG_CODE_EXPIRES_MIN ev);
                d' = save (saveTime i)
                       (u\<lparr>emailVerification :=
                            Some \<lparr>codeHash = codeHash', expiresAt = expiresAt'\<rparr>\<rparr>) d
            in if sendVerificationEmail ev i normalizedEmail verificationCode
               then (done_with 200 ''Verification code sent to your email'', d')
               else (fail 500 ''Failed to resend verification code. Please try again.'', d')))"

definition successMessage :: string where
  "successMessage =
     ''If an account with this email exists, a password reset code has been sent.''"

definition forgotPassword :: "env \<Rightarrow> io \<Rightarrow> string \<Rightarrow> db \<Rightarrow> response \<times> db" where
  "forgotPassword ev i email' d =
     (if email' = [] then (fail 400 ''Email is required'', d)
      else if \<not> isValidEmail email' then (fail 400 ''Please provide a valid email address'', d)
      else
        (let normalizedEmail = normalize email' in
         case findOne normalizedEmail d of
          None \<Rightarrow> (done_with 200 successMessage, d)
        | Some u \<Rightarrow>
          let resetCode = generateNumericCode (CONFIG_CODE_LENGTH ev) (draw i);
              codeHash' = hashCode ev resetCode;
              expiresAt' = addMinutes (now i) (CONFIG_CODE_EXPIRES_MIN ev);
              d' = save (saveTime i)
                     (u\<lparr>passwordReset :=
                          Some \<lparr>codeHash = codeHash', expiresAt = expiresAt'\<rparr>\<rparr>) d
          in if sendResetEmail ev i normalizedEmail resetCode
             then (done_with 200 successMessage, d')
             else (fail 500 ''Failed to process password reset request. Please try again.'',
                   d')))"

definition resetPassword :: "env \<Rightarrow> io \<Rightarrow> string \<Rightarrow> string \<Rightarrow> string \<Rightarrow> db \<Rightarrow> response \<times> db" where
  "resetPassword ev i email' code newPassword d =
     (if email' = [] \<or> code = [] \<or> newPassword = []
      then (fail 400 ''Email, reset code, and new password are required'', d)
      else if \<not> isValidEmail email' then (fail 400 ''Please provide a valid email address'', d)
      else if \<not> isValid (validatePassword newPassword)
      then (\<lparr>status = 400,
             body = JObj [(''error'', opt JStr (message (validatePassword newPassword)))]\<rparr>, d)
      else
        (case findOne (normalize email') d of
          None \<Rightarrow> (fail 400 ''Invalid reset request'', d)
        | Some u \<Rightarrow>
          (case passwordReset u of
            None \<Rightarrow> (fail 400 ''Invalid reset request'', d)
          | Some c \<Rightarrow>
            if codeHash c = [] then (fail 400 ''Invalid reset request'', d)
            else if now i > expiresAt c
            then (fail 400 ''Reset code has expired. Please request a new one.'', d)
            else if hashCode ev (trim code) \<noteq> codeHash c
            then (fail 400 ''Invalid reset code'', d)
            else
              let newPasswordHash = bcrypt_hash ev newPassword (salt i)
              in if newPasswordHash = []
                 then (fail 500 ''Failed to reset password. Please try again.'', d)
                 else (done_with 200 (''Password has been reset successfully. '' @
                         ''Please sign in with your new password.''),
                       save (saveTime i)
                         (u\<lparr>passwordHash := newPasswordHash, passwordReset := None\<rparr>) d))))"

definition logout :: "db \<Rightarrow> response \<times> db" where
  "logout d = (done_with 200 ''Logged out successfully'', d)"

definition devVerifyEmail :: "env \<Rightarrow> io \<Rightarrow> string \<Rightarrow> db \<Rightarrow> response \<times> db" where
  "devVerifyEmail ev i email' d =
     (if NODE_ENV ev = ''production'' then (fail 404 ''Endpoint not found'', d)
      else if email' = [] then (fail 400 ''Email is required'', d)
      else case findOne (normalize email') d of
        None \<Rightarrow> (fail 404 ''User not found'', d)
      | Some u \<Rightarrow>
        (done_with 200 ''Email verified successfully (development mode)'',
         save (saveTime i) (u\<lparr>emailVerified := True, emailVerification := None\<rparr>) d))"

definition devResetPassword :: "env \<Rightarrow> io \<Rightarrow> string \<Rightarrow> string \<Rightarrow> db \<Rightarrow> response \<times> db" where
  "devResetPassword ev i email' newPassword d =
     (if NODE_ENV ev = ''production'' then (fail 404 ''Endpoint not found'', d)
      else if email' = [] \<or> newPassword = []
      then (fail 400 ''Email and new password are required'', d)
      else if \<not> isValid (validatePassword newPassword)
      then (\<lparr>status = 400,
             body = JObj [(''error'', opt JStr (message (validatePassword newPassword)))]\<rparr>, d)
      else
        (case findOne (normalize email') d of
          None \<Rightarrow> (fail 404 ''User not found'', d)
        | Some u \<Rightarrow>
          let h = bcrypt_hash ev newPassword (salt i)
          in if h = [] then (fail 500 ''Failed to reset password'', d)
             else (done_with 200 ''Password updated successfully (development mode)'',
                   save (saveTime i) (u\<lparr>passwordHash := h\<rparr>) d)))"

section \<open>The authentication middleware and the protected routes\<close>

definition verifyToken :: "env \<Rightarrow> int \<Rightarrow> token \<Rightarrow> error + payload" where
  \<comment> \<open>\<open>t\<close> is the clock when the token is verified\<close>
  "verifyToken ev t tok =
     (case jwt_verify tok (JWT_SECRET ev) t of
        Inr p \<Rightarrow> Inr p
      | Inl TokenExpiredError \<Rightarrow>
          Inl (AppError ''Your session has expired. Please sign in again.'' 401)
      | Inl JsonWebTokenError \<Rightarrow>
          Inl (AppError ''Invalid authentication token. Please sign in again.'' 401)
      | Inl NotBeforeError \<Rightarrow>
          Inl (AppError ''Authentication failed. Please sign in again.'' 401))"

definition authMiddleware :: "env \<Rightarrow> int \<Rightarrow> token option \<Rightarrow> error + payload" where
  \<comment> \<open>the token is the one \<open>extractToken\<close> found, if any; \<open>Inr\<close> is \<open>next()\<close>\<close>
  "authMiddleware ev t tok =
     (case tok of
        None \<Rightarrow> Inl (AppError ''Access denied. No authentication token provided.'' 401)
      | Some k \<Rightarrow>
        (case verifyToken ev t k of
           Inl e \<Rightarrow> Inl e
         | Inr p \<Rightarrow>
           if p_id p = [] \<or> p_email p = []
           then Inl (AppError ''Invalid token payload. Please sign in again.'' 401)
           else Inr p))"

text \<open>
  A route answers with a response or hands an error to \<open>next\<close>. The ids of the tokens are
  taken to be well-formed ObjectIds, so \<open>findById\<close> does not raise a cast error.
\<close>

definition getMe :: "env \<Rightarrow> io \<Rightarrow> token option \<Rightarrow> db \<Rightarrow> (error + response) \<times> db" where
  "getMe ev i tok d =
     (case authMiddleware ev (now i) tok of
        Inl e \<Rightarrow> (Inl e, d)
      | Inr p \<Rightarrow>
        (case findById (p_id p) d of
           None \<Rightarrow> (Inl (AppError ''User not found'' 404), d)
         | Some u \<Rightarrow>
           if \<not> isActive u then (Inl (AppError ''Account has been deactivated'' 403), d)
           else (Inr \<lparr>status = 200, body = JObj
                   [(''success'', JBool True), (''user'', toSafeObject u)]\<rparr>, d)))"

definition orStored :: "string option \<Rightarrow> string option \<Rightarrow> string option" where
  \<comment> \<open>\<open>supplied?.trim() || stored\<close>\<close>
  "orStored supplied stored =
     (case supplied of
        None \<Rightarrow> stored
      | Some x \<Rightarrow> if trim x = [] then stored else Some (trim x))"

definition tooLong :: "nat \<Rightarrow> string \<Rightarrow> string option \<Rightarrow> string list" where
  \<comment> \<open>the \<open>maxLength\<close> validator of a path, with the message the error handler builds\<close>
  "tooLong n msg v =
     (case v of None \<Rightarrow> [] | Some x \<Rightarrow> if length x > n then [msg] else [])"

definition validateProfile :: "user \<Rightarrow> string list" where
  "validateProfile u =
     tooLong 100 ''name cannot exceed 100 characters'' (name u) @
     tooLong 50 ''profile.firstName cannot exceed 50 characters'' (firstName (profile u)) @
     tooLong 50 ''profile.lastName cannot exceed 50 characters'' (lastName (profile u))"

definition putMe ::
  "env \<Rightarrow> io \<Rightarrow> token option \<Rightarrow> string option \<Rightarrow> profile_fields option \<Rightarrow> db \<Rightarrow>
   (error + response) \<times> db" where
  \<comment> \<open>\<open>name'\<close> and \<open>profile'\<close> are the fields of the body, \<open>None\<close> when absent\<close>
  "putMe ev i tok name' profile' d =
     (case authMiddleware ev (now i) tok of
        Inl e \<Rightarrow> (Inl e, d)
      | Inr p \<Rightarrow>
        (case findById (p_id p) d of
           None \<Rightarrow> (Inl (AppError ''User not found'' 404), d)
         | Some u \<Rightarrow>
           if \<not> isActive u then (Inl (AppError ''Account has been deactivated'' 403), d)
           else
             let u1 = (case name' of None \<Rightarrow> u
                       | Some n \<Rightarrow> u\<lparr>name := trimmedName (Some n)\<rparr>);
                 u2 = (case profile' of None \<Rightarrow> u1
                       | Some q \<Rightarrow> u1\<lparr>profile :=
                           \<lparr>firstName = orStored (firstName q) (firstName (profile u1)),
                            lastName = orStored (lastName q) (lastName (profile u1)),
                            avatar = orStored (avatar q) (avatar (profile u1))\<rparr>\<rparr>)
             in if validateProfile u2 \<noteq> [] then (Inl (ValidationError (validateProfile u2)), d)
                else (Inr \<lparr>status = 200, body = JObj
                        [(''success'', JBool True),
                         (''message'', JStr ''Profile updated successfully''),
                         (''user'', toSafeObject (pre_save (saveTime i) u2))]\<rparr>,
                      save (saveTime i) u2 d)))"

definition deleteMe :: "env \<Rightarrow> io \<Rightarrow> token option \<Rightarrow> db \<Rightarrow> (error + response) \<times> db" where
  "deleteMe ev i tok d =
     (case authMiddleware ev (now i) tok of
        Inl e \<Rightarrow> (Inl e, d)
      | Inr p \<Rightarrow>
        (case findById (p_id p) d of
           None \<Rightarrow> (Inl (AppError ''User not found'' 404), d)
         | Some u \<Rightarrow>
           (Inr \<lparr>status = 200, body = JObj
              [(''success'', JBool True),
               (''message'', JStr ''Account has been deactivated successfully'')]\<rparr>,
            save (saveTime i) (u\<lparr>isActive := False\<rparr>) d)))"

definition filled :: "string option \<Rightarrow> bool" where
  "filled v = (case v of None \<Rightarrow> False | Some x \<Rightarrow> x \<noteq> [])"

definition calculateProfileCompleteness :: "user \<Rightarrow> int" where
  \<comment> \<open>\<open>Math.round(n / 4 * 100)\<close> for \<open>n\<close> of the four fields filled\<close>
  "calculateProfileCompleteness u =
     25 * int (length (filter id
       [filled (name u), filled (firstName (profile u)), filled (lastName (profile u)),
        emailVerified u]))"

definition accountStats :: "env \<Rightarrow> io \<Rightarrow> token option \<Rightarrow> db \<Rightarrow> (error + response) \<times> db" where
  "accountStats ev i tok d =
     (case authMiddleware ev (now i) tok of
        Inl e \<Rightarrow> (Inl e, d)
      | Inr p \<Rightarrow>
        (case findById (p_id p) d of
           None \<Rightarrow> (Inl (AppError ''User not found'' 404), d)
         | Some u \<Rightarrow>
           (Inr \<lparr>status = 200, body = JObj
              [(''success'', JBool True),
               (''stats'', JObj
                  [(''accountAge'', JDate (createdAt u)),
                   (''lastLogin'', opt JDate (lastLogin u)),
                   (''emailVerified'', JBool (emailVerified u)),
                   (''profileCompleteness'', JNum (calculateProfileCompleteness u)),
                   (''accountStatus'',
                      JStr (if isActive u then ''active'' else ''inactive''))])]\<rparr>, d)))"

definition errorStatus :: "error \<Rightarrow> nat" where
  \<comment> \<open>the status the error handler answers with\<close>
  "errorStatus e = (case e of AppError m c \<Rightarrow> c | ValidationError ms \<Rightarrow> 400)"

definition routeStatus :: "(error + response) \<times> db \<Rightarrow> nat" where
  "routeStatus r = (case fst r of Inl e \<Rightarrow> errorStatus e | Inr x \<Rightarrow> status x)"

section \<open>Runs of the service\<close>

text \<open>
  The requests that reach a handler, each with the token or the body fields the handler
  reads. A run is a list of requests, each with what it reads from outside; the
  collection is threaded through.
\<close>

datatype request =
  Signup string string "string option"
  | VerifyEmail string string
  | Signin string string
  | ResendVerification string
  | ForgotPassword string
  | ResetPassword string string string
  | Logout
  | DevVerifyEmail string
  | DevResetPassword string string
  | GetMe "token option"
  | PutMe "token option" "string option" "profile_fields option"
  | DeleteMe "token option"
  | AccountStats "token option"

definition validateEmailInput :: "string \<Rightarrow> response option" where
  \<comment> \<open>the middleware of the authentication routes; \<open>None\<close> is \<open>next()\<close>\<close>
  "validateEmailInput e =
     (if e = [] then Some (fail 400 ''Email is required'')
      else if \<not> isValidEmail e then Some (fail 400 ''Please provide a valid email address'')
      else None)"

definition route :: "string \<Rightarrow> response \<times> db \<Rightarrow> db \<Rightarrow> response \<times> db" where
  \<comment> \<open>a controller behind \<open>validateEmailInput\<close>; the rate limiters before it count the
     requests of a client and are not part of the model\<close>
  "route e r d = (case validateEmailInput e of Some x \<Rightarrow> (x, d) | None \<Rightarrow> r)"

fun handle :: "env \<Rightarrow> io \<Rightarrow> request \<Rightarrow> db \<Rightarrow> (error + response) \<times> db" where
  "handle ev i (Signup e p n) d = apfst Inr (route e (signup ev i e p n d) d)"
| "handle ev i (VerifyEmail e c) d = apfst Inr (route e (verifyEmail ev i e c d) d)"
| "handle ev i (Signin e p) d = apfst Inr (route e (signin ev i e p d) d)"
| "handle ev i (ResendVerification e) d = apfst Inr (route e (resendVerification ev i e d) d)"
| "handle ev i (ForgotPassword e) d = apfst Inr (route e (forgotPassword ev i e d) d)"
| "handle ev i (ResetPassword e c p) d = apfst Inr (route e (resetPassword ev i e c p d) d)"
| "handle ev i Logout d = apfst Inr (logout d)"
| "handle ev i (DevVerifyEmail e) d = apfst Inr (route e (devVerifyEmail ev i e d) d)"
| "handle ev i (DevResetPassword e p) d = apfst Inr (route e (devResetPassword ev i e p d) d)"
| "handle ev i (GetMe k) d = getMe ev i k d"
| "handle ev i (PutMe k n q) d = putMe ev i k n q d"
| "handle ev i (DeleteMe k) d = deleteMe ev i k d"
| "handle ev i (AccountStats k) d = accountStats ev i k d"

definition step :: "env \<Rightarrow> io \<Rightarrow> request \<Rightarrow> db \<Rightarrow> db" where
  \<comment> \<open>the collection a request leaves\<close>
  "step ev i r d = snd (handle ev i r d)"

fun run :: "env \<Rightarrow> (io \<times> request) list \<Rightarrow> db \<Rightarrow> db" where
  "run ev [] d = d"
| "run ev (ir # rs) d = run ev rs (step ev (fst ir) (snd ir) d)"

definition uniqueIds :: "db \<Rightarrow> bool" where
  \<comment> \<open>the unique index on \<open>_id\<close>\<close>
  "uniqueIds d = distinct (map u_id d)"

definition holdsAt :: "(user \<Rightarrow> bool) \<Rightarrow> string \<Rightarrow> db \<Rightarrow> bool" where
  \<comment> \<open>the collection has an account with the normalized email \<open>e\<close>, and \<open>P\<close> holds of it\<close>
  "holdsAt P e d = (case findOne e d of None \<Rightarrow> False | Some u \<Rightarrow> P u)"

definition noResetCode :: "user \<Rightarrow> bool" where
  "noResetCode u = (passwordReset u = None)"

fun issuedHash :: "env \<Rightarrow> string \<Rightarrow> io \<times> request \<Rightarrow> string list" where
  \<comment> \<open>the hash of the reset code that a request issues to the account with the normalized
     email \<open>e\<close>, if it issues one\<close>
  "issuedHash ev e (i, ForgotPassword e') =
     (if normalize e' = e
      then [hashCode ev (generateNumericCode (CONFIG_CODE_LENGTH ev) (draw i))] else [])"
| "issuedHash ev e (i, _) = []"

definition issuedHashes :: "env \<Rightarrow> string \<Rightarrow> (io \<times> request) list \<Rightarrow> string list" where
  "issuedHashes ev e rs = concat (map (issuedHash ev e) rs)"

definition resetWithin :: "string set \<Rightarrow> user \<Rightarrow> bool" where
  \<comment> \<open>the account has no pending reset code, or one whose hash is in \<open>H\<close>\<close>
  "resetWithin H u = (case passwordReset u of None \<Rightarrow> True | Some k \<Rightarrow> codeHash k \<in> H)"

definition blank :: "string option \<Rightarrow> bool" where
  \<comment> \<open>a body field that is absent, empty, or made of white space only\<close>
  "blank x = (case x of None \<Rightarrow> True | Some s \<Rightarrow> list_all isWhiteSpace s)"

section \<open>Example data\<close>

text \<open>
  The accounts and the process the examples below run on. The bcrypt functions and the
  digest of \<open>exampleEnv\<close> are stand-ins that keep their argument readable; every general
  theorem holds for any functions in their place.
\<close>

definition exampleEnv :: env where
  "exampleEnv =
     \<lparr>NODE_ENV = ''production'', JWT_SECRET = ''s3cret'', JWT_EXPIRES_IN = None,
      CODE_LENGTH = 0, EMAIL_CODE_EXPIRES_MIN = 0, mailerInitialized = True,
      bcrypt_hash = (\<lambda>p s. s @ p),
      bcrypt_compare = (\<lambda>p h. h = ''$2a$12$'' @ p),
      sha256_hex = (\<lambda>c. ''sha256:'' @ c)\<rparr>"

definition exampleIo :: io where
  "exampleIo =
     \<lparr>now = 1000000, saveTime = 1000001, draw = (\<lambda>n. n + 1), salt = ''$2a$12$'',
      newId = ''64b0c0ffee0000000000000b'', transportDelivers = True\<rparr>"

definition alice :: user where
  "alice =
     \<lparr>u_id = ''64b0c0ffee0000000000000a'', email = ''a@x.com'',
      passwordHash = ''$2a$12$Abcd123!'', name = Some ''Alice'', emailVerified = True,
      emailVerification = None, passwordReset = None,
      profile = \<lparr>firstName = Some ''Alice'', lastName = None, avatar = None\<rparr>,
      lastLogin = None, loginAttempts = 0, accountLocked = False, lockUntil = None,
      isActive = True, createdAt = 1000, updatedAt = 1000\<rparr>"

definition aliceToken :: token where
  "aliceToken =
     Signed \<lparr>p_id = ''64b0c0ffee0000000000000a'', p_email = ''a@x.com'', p_iat = 900,
             p_exp = 605700\<rparr> ''s3cret''"

definition bob :: user where
  \<comment> \<open>an unverified account whose pending code is \<open>123456\<close>\<close>
  "bob =
     \<lparr>u_id = ''64b0c0ffee0000000000000c'', email = ''b@x.com'',
      passwordHash = ''$2a$12$Abcd123!'', name = None, emailVerified = False,
      emailVerification = Some \<lparr>codeHash = ''sha256:123456'', expiresAt = 1900000\<rparr>,
      passwordReset = None,
      profile = \<lparr>firstName = None, lastName = None, avatar = None\<rparr>,
      lastLogin = None, loginAttempts = 0, accountLocked = False, lockUntil = None,
      isActive = True, createdAt = 1000, updatedAt = 1000\<rparr>"

definition carol :: user where
  \<comment> \<open>the account that the sign-up of the scenario creates\<close>
  "carol =
     \<lparr>u_id = ''64b0c0ffee0000000000000b'', email = ''a@x.com'',
      passwordHash = ''$2a$12$Abcd123!'', name = None, emailVerified = False,
      emailVerification = Some \<lparr>codeHash = ''sha256:123456'', expiresAt = 1900000\<rparr>,
      passwordReset = None,
      profile = \<lparr>firstName = None, lastName = None, avatar = None\<rparr>,
      lastLogin = None, loginAttempts = 0, accountLocked = False, lockUntil = None,
      isActive = True, createdAt = 1000001, updatedAt = 1000001\<rparr>"

section \<open>The password policy, verified\<close>

lemma list_ex_set: "list_ex P xs = (\<exists>x \<in> set xs. P x)"
  by (simp add: list_ex_iff)

text \<open>
  C6 (amended). A password is accepted exactly when it has at least 8 characters and
  holds an uppercase letter, a lowercase letter, a digit and a character of the special
  class of the source. A password of fewer than 8 characters is rejected with the fixed
  length message; every other rejected password gets one fixed message that names all
  four classes.
\<close>

theorem validatePassword_policy:
  "(isValid (validatePassword p) \<longleftrightarrow>
      8 \<le> length p \<and> (\<exists>c \<in> set p. isUpperAZ c) \<and> (\<exists>c \<in> set p. isLowerAZ c) \<and>
      (\<exists>c \<in> set p. isDigit c) \<and> (\<exists>c \<in> set p. isSpecialChar c)) \<and>
   message (validatePassword p) =
     (if length p < 8 then Some ''Password must be at least 8 characters long''
      else if isValid (validatePassword p) then None
      else Some (''Password must contain at least one uppercase letter, '' @
                 ''one lowercase letter, one number, and one special character''))"
  unfolding validatePassword_def Let_def list_ex_set by auto

theorem validatePassword_policy_witness:
  "isValid (validatePassword ''Abcd123!'') \<and>
   message (validatePassword ''Abcd123'') = Some ''Password must be at least 8 characters long''"
  using validatePassword_policy [of "''Abcd123!''"] validatePassword_policy [of "''Abcd123''"]
  by (simp add: isUpperAZ_def isLowerAZ_def isDigit_def isSpecialChar_def)

text \<open>
  C6 as stated fails: \<open>abc\<close> lacks an uppercase letter, a digit and a special character,
  and the reason it is rejected with names none of them.
\<close>

theorem validatePassword_reason_counterexample:
  "\<not> isValid (validatePassword ''abc'') \<and>
   message (validatePassword ''abc'') = Some ''Password must be at least 8 characters long'' \<and>
   \<not> listsMissingClasses ''abc'' ''Password must be at least 8 characters long''"
  by (simp add: validatePassword_def listsMissingClasses_def mentions_def isUpperAZ_def
      isLowerAZ_def isDigit_def isSpecialChar_def upt_rec)

section \<open>The lock predicate\<close>

text \<open>
  C8 (amended). \<open>isLocked\<close> holds exactly when the flag \<open>accountLocked\<close> is set and
  \<open>lockUntil\<close> is set and lies strictly after the current time; \<open>isAccountLocked\<close> is
  truthy in the same cases. Hence a lock lapses once \<open>lockUntil\<close> has passed, and only
  \<open>accountLocked\<close> and \<open>lockUntil\<close> influence the result.
\<close>

theorem isLocked_iff:
  "(isLocked t u \<longleftrightarrow> accountLocked u \<and> (\<exists>l. lockUntil u = Some l \<and> t < l)) \<and>
   (truthy (isAccountLocked t u) \<longleftrightarrow> isLocked t u) \<and>
   (lockUntil u = Some l \<and> l \<le> t \<longrightarrow> \<not> isLocked t u) \<and>
   (accountLocked v = accountLocked u \<and> lockUntil v = lockUntil u \<longrightarrow>
      isLocked t v = isLocked t u)"
  by (auto simp: isLocked_def isAccountLocked_def truthy_def split: option.splits)

theorem isLocked_iff_witness:
  "isLocked 1000 (alice\<lparr>accountLocked := True, lockUntil := Some 2000\<rparr>) \<and>
   \<not> isLocked 2000 (alice\<lparr>accountLocked := True, lockUntil := Some 2000\<rparr>) \<and>
   isLocked 1000 (alice\<lparr>accountLocked := True, lockUntil := Some 2000, loginAttempts := 7\<rparr>)"
  using isLocked_iff [of 1000 "alice\<lparr>accountLocked := True, lockUntil := Some 2000\<rparr>" 2000
          "alice\<lparr>accountLocked := True, lockUntil := Some 2000, loginAttempts := 7\<rparr>"]
        isLocked_iff [of 2000 "alice\<lparr>accountLocked := True, lockUntil := Some 2000\<rparr>" 2000
          "alice\<lparr>accountLocked := True, lockUntil := Some 2000\<rparr>"]
  by simp

text \<open>
  C8 as stated fails: with \<open>lockUntil\<close> set in the future and the flag \<open>accountLocked\<close>
  off, \<open>isLocked\<close> is false, and turning the flag on alone changes the result.
\<close>

theorem isLocked_flag_counterexample:
  "lockUntil (alice\<lparr>lockUntil := Some 2000\<rparr>) = Some 2000 \<and> (1000 :: int) < 2000 \<and>
   \<not> isLocked 1000 (alice\<lparr>lockUntil := Some 2000\<rparr>) \<and>
   isLocked 1000 (alice\<lparr>lockUntil := Some 2000, accountLocked := True\<rparr>)"
  by (simp add: isLocked_def alice_def)

section \<open>Strings and the collection\<close>

lemmas example_defs = exampleEnv_def exampleIo_def alice_def bob_def aliceToken_def

lemmas string_defs = isValidEmail_def emailAtom_def isWhiteSpace_def normalize_def trim_def
  toLowerCase_def toLowerChar_def Let_def char_of_def bit_Suc_0_iff

lemma valid_a: "isValidEmail ''a@x.com''"
  by (simp add: string_defs)

lemma valid_b: "isValidEmail ''b@x.com''"
  by (simp add: string_defs)

lemma normalize_a: "normalize ''a@x.com'' = ''a@x.com''"
  by (simp add: string_defs)

lemma normalize_b: "normalize ''b@x.com'' = ''b@x.com''"
  by (simp add: string_defs)

lemma normalize_B: "normalize ''B@X.Com'' = ''b@x.com''"
  by (simp add: string_defs)

lemma valid_A: "isValidEmail ''A@x.com''"
  by (simp add: string_defs)

lemma normalize_A: "normalize ''A@x.com'' = ''a@x.com''"
  by (simp add: string_defs)

lemma example_sel:
  "NODE_ENV exampleEnv = ''production''"
  "JWT_SECRET exampleEnv = ''s3cret''"
  "CONFIG_JWT_EXPIRES_IN exampleEnv = 604800"
  "CONFIG_CODE_LENGTH exampleEnv = 6"
  "CONFIG_CODE_EXPIRES_MIN exampleEnv = 15"
  "mailerInitialized exampleEnv"
  "bcrypt_hash exampleEnv p s = s @ p"
  "bcrypt_compare exampleEnv p h = (h = ''$2a$12$'' @ p)"
  "hashCode exampleEnv c = ''sha256:'' @ c"
  "now exampleIo = 1000000"
  "saveTime exampleIo = 1000001"
  "draw exampleIo n = n + 1"
  "salt exampleIo = ''$2a$12$''"
  "newId exampleIo = ''64b0c0ffee0000000000000b''"
  "transportDelivers exampleIo"
  by (simp_all add: exampleEnv_def exampleIo_def CONFIG_JWT_EXPIRES_IN_def
      CONFIG_CODE_LENGTH_def CONFIG_CODE_EXPIRES_MIN_def hashCode_def)

lemma code_example: "generateNumericCode 6 (draw exampleIo) = ''123456''"
  by (simp add: generateNumericCode_def example_sel digitChar_def upt_rec)

lemma policy_example: "isValid (validatePassword ''Abcd123!'')"
  by (simp add: validatePassword_def isUpperAZ_def isLowerAZ_def isDigit_def isSpecialChar_def)

lemma isValidEmail_nonempty: "isValidEmail e \<Longrightarrow> e \<noteq> []"
  by (auto simp: isValidEmail_def Let_def)

lemma trim_Nil_iff: "trim s = [] \<longleftrightarrow> list_all isWhiteSpace s"
proof
  assume "list_all isWhiteSpace s"
  then have "dropWhile isWhiteSpace s = []"
    by (simp add: dropWhile_eq_Nil_conv list_all_iff)
  then show "trim s = []" by (simp add: trim_def del: dropWhile_eq_Nil_conv)
next
  assume t: "trim s = []"
  have "dropWhile isWhiteSpace s = []"
  proof (rule ccontr)
    assume ne: "dropWhile isWhiteSpace s \<noteq> []"
    then have "\<not> isWhiteSpace (hd (dropWhile isWhiteSpace s))"
      by (rule hd_dropWhile)
    moreover from t have "\<forall>x \<in> set (dropWhile isWhiteSpace s). isWhiteSpace x"
      by (simp add: trim_def dropWhile_eq_Nil_conv)
    ultimately show False using ne by (metis list.set_sel(1))
  qed
  then show "list_all isWhiteSpace s"
    by (simp add: dropWhile_eq_Nil_conv list_all_iff)
qed

lemma of_char_toLowerChar:
  "(of_char (toLowerChar c) :: nat) =
     (if (65 \<le> (of_char c :: nat) \<and> (of_char c :: nat) \<le> 90) \<or>
         (192 \<le> (of_char c :: nat) \<and> (of_char c :: nat) \<le> 222 \<and> (of_char c :: nat) \<noteq> 215)
      then of_char c + 32 else of_char c)"
  by (auto simp: toLowerChar_def Let_def)

lemma char_eq_code: "c = d \<longleftrightarrow> (of_char c :: nat) = of_char d"
  by simp

lemma emailAtom_code:
  "emailAtom c \<longleftrightarrow> (of_char c :: nat) \<notin> {9, 10, 11, 12, 13, 32, 160, 64}"
  unfolding emailAtom_def isWhiteSpace_def
  by (simp add: char_eq_code [of c])

lemma emailAtom_toLowerChar: "emailAtom (toLowerChar c) = emailAtom c"
  unfolding emailAtom_code of_char_toLowerChar by auto

lemma dot_toLowerChar: "toLowerChar c = CHR ''.'' \<longleftrightarrow> c = CHR ''.''"
  unfolding char_eq_code [of _ "CHR ''.''"] of_char_toLowerChar by auto

lemma at_toLowerChar: "toLowerChar c = CHR ''@'' \<longleftrightarrow> c = CHR ''@''"
  unfolding char_eq_code [of _ "CHR ''@''"] of_char_toLowerChar by auto


text \<open>
  \<open>isValidEmail\<close> is the regular expression: the string is atoms, \<open>@\<close>, atoms, a dot,
  atoms, each run non-empty (\<open>isValidEmail_regex\<close>). Normalizing a valid email lower-cases
  it and leaves it valid.
\<close>

lemma not_atom_at: "\<not> emailAtom CHR ''@''"
  by (simp add: emailAtom_def)

lemma atom_dot: "emailAtom CHR ''.''"
  by (simp add: emailAtom_def isWhiteSpace_def)

lemma takeWhile_atoms:
  "list_all emailAtom a \<Longrightarrow> takeWhile emailAtom (a @ CHR ''@'' # r) = a"
  by (simp add: list_all_iff not_atom_at)

lemma dropWhile_atoms:
  "list_all emailAtom a \<Longrightarrow> dropWhile emailAtom (a @ CHR ''@'' # r) = CHR ''@'' # r"
  by (simp add: list_all_iff not_atom_at)

lemma isValidEmail_intro:
  assumes "a \<noteq> []" "b \<noteq> []" "c \<noteq> []"
    and "list_all emailAtom a" "list_all emailAtom b" "list_all emailAtom c"
  shows "isValidEmail (a @ CHR ''@'' # b @ CHR ''.'' # c)"
proof -
  have "(b @ CHR ''.'' # c) ! length b = CHR ''.''" by simp
  moreover have "1 \<le> length b" "length b < length (b @ CHR ''.'' # c) - 1"
    using assms by (simp_all add: Suc_le_eq)
  ultimately have "\<exists>i \<in> set [1..<length (b @ CHR ''.'' # c) - 1]. (b @ CHR ''.'' # c) ! i = CHR ''.''"
    by (intro bexI [of _ "length b"]) simp_all
  then have "list_ex (\<lambda>i. (b @ CHR ''.'' # c) ! i = CHR ''.'') [1..<length (b @ CHR ''.'' # c) - 1]"
    unfolding list_ex_iff .
  moreover have "list_all emailAtom (b @ CHR ''.'' # c)"
    using assms by (simp add: atom_dot)
  ultimately show ?thesis
    unfolding isValidEmail_def Let_def takeWhile_atoms [OF assms(4)] dropWhile_atoms [OF assms(4)]
    using assms(1) by simp
qed

lemma isValidEmail_elim:
  assumes v: "isValidEmail e"
  shows "\<exists>a b c. e = a @ CHR ''@'' # b @ CHR ''.'' # c \<and> a \<noteq> [] \<and> b \<noteq> [] \<and> c \<noteq> [] \<and>
        list_all emailAtom a \<and> list_all emailAtom b \<and> list_all emailAtom c"
proof -
  define a where "a = takeWhile emailAtom e"
  define r where "r = dropWhile emailAtom e"
  define t where "t = tl r"
  from v have a: "a \<noteq> []" and r: "r \<noteq> []" "hd r = CHR ''@''" and t: "list_all emailAtom t"
    and ex: "list_ex (\<lambda>i. t ! i = CHR ''.'') [1..<length t - 1]"
    unfolding isValidEmail_def Let_def a_def r_def t_def by blast+
  from ex obtain i where i: "1 \<le> i" "i < length t - 1" "t ! i = CHR ''.''"
    unfolding list_ex_iff by auto
  define b where "b = take i t"
  define c where "c = drop (Suc i) t"
  have "i < length t" using i by simp
  then have "t = b @ CHR ''.'' # c"
    unfolding b_def c_def using i(3) id_take_nth_drop [of i t] by simp
  moreover have "r = CHR ''@'' # t" using r unfolding t_def by (cases r) simp_all
  moreover have "e = a @ r" unfolding a_def r_def by simp
  ultimately have "e = a @ CHR ''@'' # b @ CHR ''.'' # c" by simp
  moreover have "b \<noteq> []" "c \<noteq> []" using i unfolding b_def c_def by auto
  moreover have "list_all emailAtom a"
    unfolding a_def list_all_iff by (auto dest: set_takeWhileD)
  moreover have "list_all emailAtom b" "list_all emailAtom c"
    using t unfolding b_def c_def list_all_iff by (auto dest: in_set_takeD in_set_dropD)
  ultimately show ?thesis using a by blast
qed

lemma isValidEmail_regex:
  "isValidEmail e \<longleftrightarrow>
     (\<exists>a b c. e = a @ CHR ''@'' # b @ CHR ''.'' # c \<and> a \<noteq> [] \<and> b \<noteq> [] \<and> c \<noteq> [] \<and>
        list_all emailAtom a \<and> list_all emailAtom b \<and> list_all emailAtom c)"
  using isValidEmail_elim isValidEmail_intro by blast

lemma trim_no_space:
  assumes "\<forall>c \<in> set s. \<not> isWhiteSpace c"
  shows "trim s = s"
proof -
  have keep: "dropWhile isWhiteSpace xs = xs" if "\<forall>c \<in> set xs. \<not> isWhiteSpace c" for xs
    using that by (cases xs) simp_all
  show ?thesis using assms by (simp add: trim_def keep)
qed

lemma isValidEmail_normalize:
  assumes "isValidEmail e"
  shows "isValidEmail (normalize e) \<and> normalize e = toLowerCase e"
proof -
  from assms obtain a b c where e: "e = a @ CHR ''@'' # b @ CHR ''.'' # c"
    and ne: "a \<noteq> []" "b \<noteq> []" "c \<noteq> []"
    and at: "list_all emailAtom a" "list_all emailAtom b" "list_all emailAtom c"
    using isValidEmail_elim by blast
  let ?f = "map toLowerChar"
  have low: "toLowerCase e = ?f a @ CHR ''@'' # ?f b @ CHR ''.'' # ?f c"
    using at_toLowerChar [of "CHR ''@''"] dot_toLowerChar [of "CHR ''.''"]
    by (simp add: e toLowerCase_def)
  have atoms: "list_all emailAtom (?f a)" "list_all emailAtom (?f b)" "list_all emailAtom (?f c)"
    using at by (simp_all add: list_all_iff emailAtom_toLowerChar)
  have valid: "isValidEmail (toLowerCase e)"
    unfolding low using ne atoms by (intro isValidEmail_intro) simp_all
  have "\<forall>x \<in> set (toLowerCase e). \<not> isWhiteSpace x"
    unfolding low using atoms by (auto simp: list_all_iff emailAtom_def isWhiteSpace_def)
  then have "normalize e = toLowerCase e"
    by (simp add: normalize_def trim_no_space)
  with valid show ?thesis by simp
qed

lemma findOne_mem: "findOne e d = Some u \<Longrightarrow> u \<in> set d \<and> email u = e"
  by (auto simp: findOne_def find_Some_iff)

lemma findById_mem: "findById j d = Some u \<Longrightarrow> u \<in> set d \<and> u_id u = j"
  by (auto simp: findById_def find_Some_iff)

lemma findById_same:
  "findById j d = Some v \<Longrightarrow> findById k d = Some u \<Longrightarrow> u_id v = u_id u \<Longrightarrow> v = u"
  by (metis findById_mem option.inject)

lemma pre_save_sel [simp]:
  "u_id (pre_save t u) = u_id u"
  "email (pre_save t u) = email u"
  "passwordHash (pre_save t u) = passwordHash u"
  "emailVerified (pre_save t u) = emailVerified u"
  "profile (pre_save t u) = profile u"
  "name (pre_save t u) = name u"
  "isActive (pre_save t u) = isActive u"
  "loginAttempts (pre_save t u) = loginAttempts u"
  "accountLocked (pre_save t u) = accountLocked u"
  "lockUntil (pre_save t u) = lockUntil u"
  "lastLogin (pre_save t u) = lastLogin u"
  by (simp_all add: pre_save_def)

lemma findById_save:
  "findById j (save t u d) =
     map_option (\<lambda>v. if u_id v = u_id u then pre_save t u else v) (findById j d)"
  by (induction d) (auto simp: findById_def save_def)

lemma findById_save_field:
  assumes "findById k d = Some u" and "u_id u2 = u_id u" and "f (pre_save t u2) = f u"
  shows "map_option f (findById j (save t u2 d)) = map_option f (findById j d)"
proof (cases "findById j d")
  case None
  then show ?thesis by (simp add: findById_save)
next
  case (Some v)
  show ?thesis
  proof (cases "u_id v = u_id u")
    case True
    with Some assms(1) have "v = u" by (rule findById_same)
    with Some assms show ?thesis by (simp add: findById_save)
  next
    case False
    with Some assms show ?thesis by (simp add: findById_save)
  qed
qed

section \<open>The public views\<close>

lemma keys_delete: "fst ` set (delete k ret) = fst ` set ret - {k}"
  by (auto simp: delete_def)

lemma map_of_delete: "k' \<noteq> k \<Longrightarrow> map_of (delete k ret) k' = map_of ret k'"
  by (induction ret) (auto simp: delete_def)

lemma documentFields_isLocked: "map_of (documentFields u) ''isLocked'' = None"
  by (simp add: documentFields_def present_def map_add_def split: option.splits)

lemma toJSON_isLocked: "field (toJSON t u) ''isLocked'' = Some (JBool (isLocked t u))"
  by (simp add: toJSON_def map_of_delete documentFields_isLocked map_add_def virtualFields_def)

lemma toJSON_keys: "set (keys (toJSON t u)) \<inter> set sensitiveKeys = {}"
  by (auto simp: toJSON_def sensitiveKeys_def keys_delete)

text \<open>
  C9. In every state of an account, the view of the profile routes (\<open>toSafeObject\<close>)
  and the \<open>user\<close> object of the sign-in response hold none of the stored paths
  \<open>passwordHash\<close>, \<open>emailVerification\<close>, \<open>passwordReset\<close>, \<open>loginAttempts\<close>,
  \<open>accountLocked\<close>, \<open>lockUntil\<close>, at the top level or inside \<open>profile\<close>, and no
  \<open>isLocked\<close>. The JSON serialization holds none of the six stored paths either, but it
  does not keep the lock state out as C9 requires: the transform of \<open>toJSON\<close> deletes
  \<open>accountLocked\<close> and \<open>lockUntil\<close>, while \<open>virtuals: true\<close> has added the virtual
  \<open>isLocked\<close>, which the transform does not delete. The last conjunct states what the
  serialization gives away.
\<close>

theorem views_hide_stored_secrets:
  "set (keys (toSafeObject u)) \<inter> set sensitiveKeys = {} \<and>
   set (keys (signinView u)) \<inter> set sensitiveKeys = {} \<and>
   set (keys (toJSON t u)) \<inter> set sensitiveKeys = {} \<and>
   set (keys (profile_json (profile u))) \<inter> set sensitiveKeys = {} \<and>
   ''isLocked'' \<notin> set (keys (toSafeObject u)) \<and>
   ''isLocked'' \<notin> set (keys (signinView u)) \<and>
   field (toJSON t u) ''isLocked'' = Some (JBool (isLocked t u))"
proof -
  have "set (keys (profile_json (profile u))) \<inter> set sensitiveKeys = {}"
    by (auto simp: profile_json_def present_def sensitiveKeys_def split: option.splits)
  then show ?thesis
    by (simp add: toJSON_keys toJSON_isLocked) (simp add: toSafeObject_def signinView_def
        sensitiveKeys_def)
qed

theorem views_hide_stored_secrets_witness:
  "set (keys (toJSON 1000 (alice\<lparr>accountLocked := True, lockUntil := Some 2000\<rparr>))) \<inter>
     set sensitiveKeys = {} \<and>
   field (toJSON 1000 (alice\<lparr>accountLocked := True, lockUntil := Some 2000\<rparr>)) ''isLocked'' =
     Some (JBool True)"
  using views_hide_stored_secrets [of "alice\<lparr>accountLocked := True, lockUntil := Some 2000\<rparr>"
      1000]
  by (simp add: isLocked_def alice_def)

text \<open>
  The failing input of C9: serialized to JSON, an account tells whether it is locked,
  \<open>true\<close> for a locked account and \<open>false\<close> for the same account unlocked.
\<close>

lemma toJSON_leaks_lock_state:
  "field (toJSON 1000 (alice\<lparr>accountLocked := True, lockUntil := Some 2000\<rparr>)) ''isLocked'' =
     Some (JBool True) \<and>
   field (toJSON 1000 alice) ''isLocked'' = Some (JBool False)"
  by (simp add: toJSON_isLocked isLocked_def alice_def)

section \<open>Profile updates\<close>

lemma orStored_blank: "blank x \<Longrightarrow> orStored x stored = stored"
  by (cases x) (auto simp: blank_def orStored_def trim_Nil_iff)

lemma orStored_filled: "filled stored \<Longrightarrow> filled (orStored x stored)"
  by (cases x) (auto simp: orStored_def filled_def)

lemma putMe_blank_keeps:
  "(blank (firstName q) \<longrightarrow>
      map_option (\<lambda>v. firstName (profile v)) (findById j (snd (putMe ev i tok n (Some q) d))) =
      map_option (\<lambda>v. firstName (profile v)) (findById j d)) \<and>
   (blank (lastName q) \<longrightarrow>
      map_option (\<lambda>v. lastName (profile v)) (findById j (snd (putMe ev i tok n (Some q) d))) =
      map_option (\<lambda>v. lastName (profile v)) (findById j d)) \<and>
   (blank (avatar q) \<longrightarrow>
      map_option (\<lambda>v. avatar (profile v)) (findById j (snd (putMe ev i tok n (Some q) d))) =
      map_option (\<lambda>v. avatar (profile v)) (findById j d))"
  by (auto simp: putMe_def Let_def orStored_blank split: sum.splits option.splits
      intro!: findById_save_field)

lemma putMe_never_clears:
  "findById j d = Some v \<Longrightarrow>
   \<exists>v'. findById j (snd (putMe ev i tok n q d)) = Some v' \<and>
     (filled (firstName (profile v)) \<longrightarrow> filled (firstName (profile v'))) \<and>
     (filled (lastName (profile v)) \<longrightarrow> filled (lastName (profile v'))) \<and>
     (filled (avatar (profile v)) \<longrightarrow> filled (avatar (profile v')))"
  by (auto simp: putMe_def Let_def findById_save orStored_filled
      split: sum.splits option.splits dest: findById_same)

lemma putMe_overwrites:
  assumes "authMiddleware ev (now i) tok = Inr p" and "findById (p_id p) d = Some u"
    and "isActive u" and "routeStatus (putMe ev i tok n (Some q) d) = 200"
  shows "\<exists>v'. findById (p_id p) (snd (putMe ev i tok n (Some q) d)) = Some v' \<and>
     firstName (profile v') = orStored (firstName q) (firstName (profile u)) \<and>
     lastName (profile v') = orStored (lastName q) (lastName (profile u)) \<and>
     avatar (profile v') = orStored (avatar q) (avatar (profile u))"
  using assms findById_mem [OF assms(2)]
  by (auto simp: putMe_def Let_def findById_save routeStatus_def errorStatus_def
      split: option.splits if_splits)

text \<open>
  C10. A profile sub-field that a \<open>PUT /api/me\<close> call supplies as an empty or
  white-space-only string (or leaves out) keeps its stored value, for every account of
  the collection and whatever else the call carries. No call clears a sub-field that
  holds a non-empty value. A call that succeeds stores the trimmed value of every
  sub-field it supplies with something other than white space.
\<close>

theorem updateProfile_cannot_clear:
  "(blank (firstName q) \<longrightarrow>
      map_option (\<lambda>v. firstName (profile v)) (findById j (snd (putMe ev i tok n (Some q) d))) =
      map_option (\<lambda>v. firstName (profile v)) (findById j d)) \<and>
   (blank (lastName q) \<longrightarrow>
      map_option (\<lambda>v. lastName (profile v)) (findById j (snd (putMe ev i tok n (Some q) d))) =
      map_option (\<lambda>v. lastName (profile v)) (findById j d)) \<and>
   (blank (avatar q) \<longrightarrow>
      map_option (\<lambda>v. avatar (profile v)) (findById j (snd (putMe ev i tok n (Some q) d))) =
      map_option (\<lambda>v. avatar (profile v)) (findById j d)) \<and>
   (\<forall>v. findById j d = Some v \<longrightarrow>
      (\<exists>v'. findById j (snd (putMe ev i tok n q' d)) = Some v' \<and>
         (filled (firstName (profile v)) \<longrightarrow> filled (firstName (profile v'))) \<and>
         (filled (lastName (profile v)) \<longrightarrow> filled (lastName (profile v'))) \<and>
         (filled (avatar (profile v)) \<longrightarrow> filled (avatar (profile v'))))) \<and>
   (\<forall>p u s. authMiddleware ev (now i) tok = Inr p \<and> findById (p_id p) d = Some u \<and>
      isActive u \<and> routeStatus (putMe ev i tok n (Some q) d) = 200 \<and>
      firstName q = Some s \<and> \<not> list_all isWhiteSpace s \<longrightarrow>
      map_option (\<lambda>v. firstName (profile v))
        (findById (p_id p) (snd (putMe ev i tok n (Some q) d))) = Some (Some (trim s)))"
proof -
  have "map_option (\<lambda>v. firstName (profile v))
          (findById (p_id p) (snd (putMe ev i tok n (Some q) d))) = Some (Some (trim s))"
    if "authMiddleware ev (now i) tok = Inr p" and "findById (p_id p) d = Some u"
      and "isActive u" and "routeStatus (putMe ev i tok n (Some q) d) = 200"
      and "firstName q = Some s" and "\<not> list_all isWhiteSpace s" for p u s
    using putMe_overwrites [OF that(1-4)] that(5,6)
    by (auto simp: orStored_def trim_Nil_iff)
  then show ?thesis
    using putMe_blank_keeps [of q j ev i tok n d] putMe_never_clears [of j d _ ev i tok n q']
    by blast
qed

theorem updateProfile_cannot_clear_witness:
  "map_option (\<lambda>v. firstName (profile v))
     (findById ''64b0c0ffee0000000000000a''
        (snd (putMe exampleEnv exampleIo (Some aliceToken) None
           (Some \<lparr>firstName = Some ''  '', lastName = Some ''Liddell'', avatar = Some []\<rparr>)
           [alice, bob]))) = Some (Some ''Alice'')"
  using updateProfile_cannot_clear [of "\<lparr>firstName = Some ''  '', lastName = Some ''Liddell'',
      avatar = Some []\<rparr>" "''64b0c0ffee0000000000000a''" exampleEnv exampleIo "Some aliceToken"
      None "[alice, bob]" None]
  by (simp add: blank_def isWhiteSpace_def findById_def alice_def)

section \<open>Verification codes\<close>

text \<open>
  C5 (amended). For an unverified account with a pending verification code whose stored
  hash is not empty, and a submitted code that is not empty, \<open>verifyEmail\<close> succeeds
  exactly when the current time is at most \<open>expiresAt\<close> and the hash of the submitted code
  with its surrounding white space trimmed equals the stored hash. A submission at
  \<open>expiresAt\<close> itself succeeds when the hash matches.
\<close>

theorem verifyEmail_succeeds_iff:
  assumes "isValidEmail e" and "findOne (normalize e) d = Some u" and "\<not> emailVerified u"
    and "emailVerification u = Some c" and "codeHash c \<noteq> []" and "code \<noteq> []"
  shows "status (fst (verifyEmail ev i e code d)) = 200 \<longleftrightarrow>
           now i \<le> expiresAt c \<and> hashCode ev (trim code) = codeHash c"
  using assms isValidEmail_nonempty [of e]
  by (simp add: verifyEmail_def fail_def done_with_def)

theorem verifyEmail_succeeds_iff_witness:
  "status (fst (verifyEmail exampleEnv (exampleIo\<lparr>now := 1900000\<rparr>) ''b@x.com'' ''123456''
     [alice, bob])) = 200 \<and>
   status (fst (verifyEmail exampleEnv (exampleIo\<lparr>now := 1900001\<rparr>) ''b@x.com'' ''123456''
     [alice, bob])) \<noteq> 200"
  using verifyEmail_succeeds_iff [of "''b@x.com''" "[alice, bob]" bob
      "\<lparr>codeHash = ''sha256:123456'', expiresAt = 1900000\<rparr>" "''123456''" exampleEnv
      "exampleIo\<lparr>now := 1900000\<rparr>"]
    verifyEmail_succeeds_iff [of "''b@x.com''" "[alice, bob]" bob
      "\<lparr>codeHash = ''sha256:123456'', expiresAt = 1900000\<rparr>" "''123456''" exampleEnv
      "exampleIo\<lparr>now := 1900001\<rparr>"]
  by (simp add: valid_b normalize_b findOne_def example_defs hashCode_def trim_def
      isWhiteSpace_def)

text \<open>
  C5 as stated fails: the code \<open>123456\<close> submitted with a leading space is accepted, and
  the hash of what was submitted is not the stored hash. The digest of the example is a
  stand-in; the same holds for every digest that tells the two strings apart, as the
  lemma after the counterexample states.
\<close>

theorem verifyEmail_trim_counterexample:
  "status (fst (verifyEmail exampleEnv exampleIo ''b@x.com'' '' 123456'' [alice, bob])) = 200 \<and>
   emailVerification bob = Some \<lparr>codeHash = ''sha256:123456'', expiresAt = 1900000\<rparr> \<and>
   now exampleIo \<le> 1900000 \<and>
   hashCode exampleEnv '' 123456'' \<noteq> ''sha256:123456''"
  by (simp add: verifyEmail_def valid_b normalize_b findOne_def example_defs hashCode_def
      trim_def isWhiteSpace_def done_with_def)

lemma verifyEmail_trim_any_digest:
  assumes "sha256_hex ev '' 123456'' \<noteq> sha256_hex ev ''123456''"
    and "sha256_hex ev ''123456'' \<noteq> []"
  shows "status (fst (verifyEmail ev exampleIo ''b@x.com'' '' 123456''
           [bob\<lparr>emailVerification :=
                  Some \<lparr>codeHash = hashCode ev ''123456'', expiresAt = 1900000\<rparr>\<rparr>])) = 200 \<and>
         hashCode ev '' 123456'' \<noteq> hashCode ev ''123456''"
  using assms
  by (simp add: verifyEmail_def valid_b normalize_b findOne_def exampleIo_def bob_def
      hashCode_def trim_def isWhiteSpace_def done_with_def)

section \<open>The token round trip\<close>

text \<open>
  C7 (amended). When a verified account signs in with its password, the token of the
  sign-in response, verified by \<open>verifyToken\<close> while the clock's second is before the
  second of the sign-in plus the configured span, yields the id and the email of the
  account; verified once that second is reached, it fails with the error of an expired
  session. The token clock counts whole seconds, as the library does. In milliseconds:
  the token is accepted when it is verified at least a second before the span has
  elapsed, and it is expired once the span has elapsed; in the last second before that
  it can be either, depending on the fraction of the second at which it was issued.
\<close>

theorem token_round_trip:
  assumes "isValidEmail e" and "p \<noteq> []" and "findOne (normalize e) d = Some u"
    and "bcrypt_compare ev p (passwordHash u)" and "emailVerified u"
    and "JWT_SECRET ev \<noteq> []"
  shows
    "\<exists>tok. status (fst (signin ev i e p d)) = 200 \<and>
      field (body (fst (signin ev i e p d))) ''token'' = Some (JToken tok) \<and>
      (t div 1000 < now i div 1000 + CONFIG_JWT_EXPIRES_IN ev \<longrightarrow>
         (\<exists>q. verifyToken ev t tok = Inr q \<and> p_id q = u_id u \<and> p_email q = email u)) \<and>
      (now i div 1000 + CONFIG_JWT_EXPIRES_IN ev \<le> t div 1000 \<longrightarrow>
         verifyToken ev t tok =
           Inl (AppError ''Your session has expired. Please sign in again.'' 401)) \<and>
      (t + 1000 \<le> now i + 1000 * CONFIG_JWT_EXPIRES_IN ev \<longrightarrow>
         (\<exists>q. verifyToken ev t tok = Inr q \<and> p_id q = u_id u \<and> p_email q = email u)) \<and>
      (now i + 1000 * CONFIG_JWT_EXPIRES_IN ev \<le> t \<longrightarrow>
         verifyToken ev t tok =
           Inl (AppError ''Your session has expired. Please sign in again.'' 401))"
proof -
  have "t div 1000 < now i div 1000 + CONFIG_JWT_EXPIRES_IN ev"
    if "t + 1000 \<le> now i + 1000 * CONFIG_JWT_EXPIRES_IN ev"
    using that by auto
  moreover have "now i div 1000 + CONFIG_JWT_EXPIRES_IN ev \<le> t div 1000"
    if "now i + 1000 * CONFIG_JWT_EXPIRES_IN ev \<le> t"
    using that by auto
  moreover have "e \<noteq> []"
    using assms(1) by (auto dest: isValidEmail_nonempty)
  ultimately show ?thesis
    using assms by (auto simp: signin_def jwt_sign_def verifyToken_def jwt_verify_def)
qed

lemma signin_example:
  "field (body (fst (signin exampleEnv (exampleIo\<lparr>now := t0\<rparr>) ''a@x.com'' ''Abcd123!''
       [alice, bob]))) ''token'' =
   Some (JToken (Signed \<lparr>p_id = ''64b0c0ffee0000000000000a'', p_email = ''a@x.com'',
        p_iat = t0 div 1000, p_exp = t0 div 1000 + 604800\<rparr> ''s3cret''))"
  by (simp add: signin_def valid_a normalize_a findOne_def example_sel jwt_sign_def alice_def)

lemma findOne_alice: "findOne ''a@x.com'' [alice, bob] = Some alice"
  by (simp add: findOne_def alice_def)

text \<open>
  On the example data: the token of a sign-in at 1000000 ms is accepted at 2000000 ms
  and expired at 605800000 ms, seven days after the second of the sign-in.
\<close>

theorem token_round_trip_witness:
  "\<exists>tok. status (fst (signin exampleEnv exampleIo ''a@x.com'' ''Abcd123!'' [alice, bob])) = 200 \<and>
     field (body (fst (signin exampleEnv exampleIo ''a@x.com'' ''Abcd123!'' [alice, bob])))
       ''token'' = Some (JToken tok) \<and>
     (\<exists>q. verifyToken exampleEnv 2000000 tok = Inr q \<and>
        p_id q = ''64b0c0ffee0000000000000a'' \<and> p_email q = ''a@x.com'') \<and>
     verifyToken exampleEnv 605800000 tok =
       Inl (AppError ''Your session has expired. Please sign in again.'' 401)"
proof -
  have f: "findOne (normalize ''a@x.com'') [alice, bob] = Some alice"
    by (simp add: normalize_a findOne_alice)
  have b: "bcrypt_compare exampleEnv ''Abcd123!'' (passwordHash alice)"
    and v: "emailVerified alice"
    and k: "JWT_SECRET exampleEnv \<noteq> []"
    and ids: "u_id alice = ''64b0c0ffee0000000000000a''" "email alice = ''a@x.com''"
    by (simp_all add: example_sel alice_def)
  show ?thesis
    using token_round_trip [OF valid_a _ f b v k, where i = exampleIo and t = 2000000]
      token_round_trip [OF valid_a _ f b v k, where i = exampleIo and t = 605800000]
    by (auto simp: example_sel ids)
qed

text \<open>
  C7 as stated fails in the last second of the window: a token issued by a sign-in at
  1000999 ms is expired at 605800000 ms, which is 999 ms before the seven days have
  elapsed.
\<close>

theorem token_window_counterexample:
  "\<exists>tok. field (body (fst (signin exampleEnv (exampleIo\<lparr>now := 1000999\<rparr>) ''a@x.com''
       ''Abcd123!'' [alice, bob]))) ''token'' = Some (JToken tok) \<and>
     605800000 < 1000999 + 1000 * CONFIG_JWT_EXPIRES_IN exampleEnv \<and>
     verifyToken exampleEnv 605800000 tok =
       Inl (AppError ''Your session has expired. Please sign in again.'' 401)"
  by (simp add: signin_example verifyToken_def jwt_verify_def example_sel)

section \<open>Sign-in, failed attempts and deactivated accounts\<close>

lemma signin_wrong_password:
  assumes "findOne (normalize e) d = Some u" and "\<not> bcrypt_compare ev p (passwordHash u)"
  shows "snd (signin ev i e p d) = d \<and> status (fst (signin ev i e p d)) \<in> {400, 401}"
  using assms by (simp add: signin_def fail_def)

lemma run_wrong_passwords:
  assumes "findOne (normalize e) d = Some u"
    and "\<forall>ip \<in> set wrongs. \<not> bcrypt_compare ev (snd ip) (passwordHash u)"
  shows "run ev (map (\<lambda>ip. (fst ip, Signin e (snd ip))) wrongs) d = d"
  using assms
  by (induction wrongs) (simp_all add: signin_wrong_password step_def route_def split: option.splits)

text \<open>
  C1 does not hold of \<open>signin\<close>: it never calls \<open>incrementLoginAttempts\<close> and never
  reads the lock. Sign-in attempts with a wrong password, however many, leave the
  collection as it was, so no counter moves and no lock is set, and the next attempt with
  the right password is answered 200 with a token.
\<close>

theorem signin_never_locks:
  assumes "isValidEmail e" and "findOne (normalize e) d = Some u" and "emailVerified u"
    and "JWT_SECRET ev \<noteq> []" and "good \<noteq> []" and "bcrypt_compare ev good (passwordHash u)"
    and "\<forall>ip \<in> set wrongs. \<not> bcrypt_compare ev (snd ip) (passwordHash u)"
  shows "run ev (map (\<lambda>ip. (fst ip, Signin e (snd ip))) wrongs) d = d \<and>
         findOne (normalize e) (run ev (map (\<lambda>ip. (fst ip, Signin e (snd ip))) wrongs) d) =
           Some u \<and>
         status (fst (signin ev i e good d)) = 200 \<and>
         (\<exists>tok. field (body (fst (signin ev i e good d))) ''token'' = Some (JToken tok))"
  using assms isValidEmail_nonempty [of e] run_wrong_passwords [of e d u wrongs ev]
  by (simp add: signin_def jwt_sign_def)

theorem signin_never_locks_witness:
  "run exampleEnv (map (\<lambda>ip. (fst ip, Signin ''a@x.com'' (snd ip)))
      [(exampleIo, ''wrong1''), (exampleIo, ''wrong2''), (exampleIo, ''wrong3''),
       (exampleIo, ''wrong4''), (exampleIo, ''wrong5'')]) [alice, bob] = [alice, bob] \<and>
   status (fst (signin exampleEnv exampleIo ''a@x.com'' ''Abcd123!'' [alice, bob])) = 200"
  using signin_never_locks [of "''a@x.com''" "[alice, bob]" alice exampleEnv "''Abcd123!''"
      "[(exampleIo, ''wrong1''), (exampleIo, ''wrong2''), (exampleIo, ''wrong3''),
       (exampleIo, ''wrong4''), (exampleIo, ''wrong5'')]" exampleIo]
  by (simp add: valid_a normalize_a findOne_def example_defs)

text \<open>
  The lock methods of the User model do what C1 describes, were they called: the fifth
  failed attempt sets the lock for 30 minutes.
\<close>

lemma incrementLoginAttempts_locks:
  "findById (u_id u) d = Some u \<Longrightarrow> loginAttempts u = 4 \<Longrightarrow>
   \<exists>v. findById (u_id u) (incrementLoginAttempts t ts u d) = Some v \<and> loginAttempts v = 5 \<and>
     lockUntil v = Some (t + 1800000) \<and> isLocked t v"
  by (simp add: incrementLoginAttempts_def Let_def findById_save isLocked_def)

text \<open>
  C2 does not hold of \<open>signin\<close>: it looks the account up with \<open>findOne\<close>, not with
  \<open>findByEmail\<close>, and never reads \<open>isActive\<close>. A deactivated account that is verified
  signs in and is issued a token. With a valid token for it, the profile routes answer
  403, while the deactivation route and the statistics route answer 200.
\<close>

theorem deactivated_account_still_served:
  assumes "isValidEmail e" and "findOne (normalize e) d = Some u" and "\<not> isActive u"
    and "emailVerified u" and "JWT_SECRET ev \<noteq> []" and "p \<noteq> []"
    and "bcrypt_compare ev p (passwordHash u)"
    and "authMiddleware ev (now i) k = Inr q" and "findById (p_id q) d = Some u"
  shows "status (fst (signin ev i e p d)) = 200 \<and>
         (\<exists>tok. field (body (fst (signin ev i e p d))) ''token'' = Some (JToken tok)) \<and>
         routeStatus (getMe ev i k d) = 403 \<and>
         routeStatus (putMe ev i k n r d) = 403 \<and>
         routeStatus (deleteMe ev i k d) = 200 \<and>
         routeStatus (accountStats ev i k d) = 200"
  using assms isValidEmail_nonempty [of e]
  by (simp add: signin_def jwt_sign_def getMe_def putMe_def deleteMe_def accountStats_def
      routeStatus_def errorStatus_def)

theorem deactivated_account_still_served_witness:
  "status (fst (signin exampleEnv exampleIo ''a@x.com'' ''Abcd123!''
     [alice\<lparr>isActive := False\<rparr>, bob])) = 200 \<and>
   routeStatus (getMe exampleEnv exampleIo (Some aliceToken) [alice\<lparr>isActive := False\<rparr>, bob]) = 403 \<and>
   routeStatus (accountStats exampleEnv exampleIo (Some aliceToken)
     [alice\<lparr>isActive := False\<rparr>, bob]) = 200"
  using deactivated_account_still_served [of "''a@x.com''" "[alice\<lparr>isActive := False\<rparr>, bob]"
      "alice\<lparr>isActive := False\<rparr>" exampleEnv "''Abcd123!''" exampleIo "Some aliceToken"
      "\<lparr>p_id = ''64b0c0ffee0000000000000a'', p_email = ''a@x.com'', p_iat = 900,
             p_exp = 605700\<rparr>" None None]
  by (simp add: valid_a normalize_a findOne_def findById_def example_defs authMiddleware_def
      verifyToken_def jwt_verify_def)

text \<open>
  Such an account arises from the deactivation route itself: after \<open>DELETE /api/me\<close> the
  account is inactive, and the sign-in that follows is still answered 200.
\<close>

lemma deactivate_then_signin:
  "deleteMe exampleEnv exampleIo (Some aliceToken) [alice, bob] =
     (Inr \<lparr>status = 200, body = JObj
        [(''success'', JBool True),
         (''message'', JStr ''Account has been deactivated successfully'')]\<rparr>,
      [alice\<lparr>isActive := False, updatedAt := 1000001\<rparr>, bob]) \<and>
   status (fst (signin exampleEnv exampleIo ''a@x.com'' ''Abcd123!''
     [alice\<lparr>isActive := False, updatedAt := 1000001\<rparr>, bob])) = 200"
  by (simp add: deleteMe_def authMiddleware_def verifyToken_def jwt_verify_def findById_def
      save_def pre_save_def dropExpired_def signin_def valid_a normalize_a findOne_def
      jwt_sign_def example_sel alice_def bob_def aliceToken_def)

section \<open>Forgot password\<close>

text \<open>
  C4 holds while the mail is delivered and fails when it is not: for a well-formed email
  with no account the answer is the success message; for one with an account it is the
  same message when the mailer is initialized and the transport delivers, and a 500
  error, a different response, when the mail cannot be sent.
\<close>

lemma sendResetEmail_iff:
  "isValidEmail e \<Longrightarrow>
   sendResetEmail ev i (normalize e) code = (mailerInitialized ev \<and> transportDelivers i)"
  using isValidEmail_normalize [of e] isValidEmail_nonempty [of "normalize e"]
  by (auto simp: sendResetEmail_def sendMail_def)

theorem forgotPassword_mail_failure_shows:
  assumes "isValidEmail e" and "findOne (normalize e) d = Some u"
    and "findOne (normalize e) d0 = None"
  shows "fst (forgotPassword ev i0 e d0) = done_with 200 successMessage \<and>
         (mailerInitialized ev \<and> transportDelivers i \<longrightarrow>
            fst (forgotPassword ev i e d) = done_with 200 successMessage) \<and>
         (\<not> (mailerInitialized ev \<and> transportDelivers i) \<longrightarrow>
            fst (forgotPassword ev i e d) =
              fail 500 ''Failed to process password reset request. Please try again.'' \<and>
            fst (forgotPassword ev i e d) \<noteq> fst (forgotPassword ev i0 e d0))"
  using assms isValidEmail_nonempty [of e]
  by (simp add: forgotPassword_def Let_def sendResetEmail_iff fail_def done_with_def)

theorem forgotPassword_mail_failure_shows_witness:
  "fst (forgotPassword exampleEnv (exampleIo\<lparr>transportDelivers := False\<rparr>) ''a@x.com'' [bob]) =
     done_with 200 successMessage \<and>
   status (fst (forgotPassword exampleEnv (exampleIo\<lparr>transportDelivers := False\<rparr>) ''a@x.com''
     [alice, bob])) = 500"
  using forgotPassword_mail_failure_shows [of "''a@x.com''" "[alice, bob]" alice "[bob]"
      exampleEnv "exampleIo\<lparr>transportDelivers := False\<rparr>"
      "exampleIo\<lparr>transportDelivers := False\<rparr>"]
  by (simp add: valid_a normalize_a findOne_def example_defs fail_def)

section \<open>One-time codes over runs of the service\<close>

text \<open>
  The collection keeps its ids unique, as the index on \<open>_id\<close> does. Under this
  invariant a request changes the account it looked up and no other, which gives the two
  facts the single use of codes rests on: a verified account stays verified, and the
  reset code of an account is always one that a forgot-password request for it has
  issued since the account last had none.
\<close>

lemma find_map_option: "find P (map f xs) = map_option f (find (P \<circ> f) xs)"
  by (induction xs) simp_all

lemma find_app: "find P (xs @ ys) = (case find P xs of None \<Rightarrow> find P ys | Some x \<Rightarrow> Some x)"
  by (induction xs) simp_all

lemma uniqueIds_same:
  "uniqueIds d \<Longrightarrow> u \<in> set d \<Longrightarrow> v \<in> set d \<Longrightarrow> u_id v = u_id u \<Longrightarrow> v = u"
  unfolding uniqueIds_def by (metis distinct_map inj_onD)

lemma save_ids: "map u_id (save t u d) = map u_id d"
  by (induction d) (simp_all add: save_def)

lemma uniqueIds_save: "uniqueIds (save t u d) = uniqueIds d"
  by (simp add: uniqueIds_def save_ids)

lemma uniqueIds_create: "create t u d = Some d' \<Longrightarrow> uniqueIds d \<Longrightarrow> uniqueIds d'"
  by (fastforce simp: create_def uniqueIds_def list_ex_iff split: if_splits)

lemma findOne_save:
  assumes "uniqueIds d" and "u \<in> set d" and "u_id u' = u_id u" and "email u' = email u"
  shows "findOne e (save t u' d) =
           map_option (\<lambda>v. if u_id v = u_id u then pre_save t u' else v) (findOne e d)"
proof -
  have "find ((\<lambda>v. email v = e) \<circ> (\<lambda>v. if u_id v = u_id u' then pre_save t u' else v)) d =
        find (\<lambda>v. email v = e) d"
  proof (rule find_cong [OF refl])
    fix v assume "v \<in> set d"
    show "((\<lambda>v. email v = e) \<circ> (\<lambda>v. if u_id v = u_id u' then pre_save t u' else v)) v =
          (email v = e)"
    proof (cases "u_id v = u_id u'")
      case True
      with assms \<open>v \<in> set d\<close> have "v = u" by (simp add: uniqueIds_same)
      with True assms show ?thesis by simp
    next
      case False
      then show ?thesis by simp
    qed
  qed
  then show ?thesis using assms(3) by (simp add: findOne_def save_def find_map_option)
qed

lemma holdsAt_save:
  assumes "u \<in> set d" and "uniqueIds d" and "u_id u' = u_id u" and "email u' = email u"
    and "email u = e \<Longrightarrow> P u \<Longrightarrow> P (pre_save t u')" and "holdsAt P e d"
  shows "holdsAt P e (save t u' d)"
proof -
  from assms(6) obtain v where v: "findOne e d = Some v" "P v"
    by (auto simp: holdsAt_def split: option.splits)
  then have mem: "v \<in> set d" "email v = e" by (simp_all add: findOne_mem)
  show ?thesis
  proof (cases "u_id v = u_id u")
    case True
    with assms mem have "v = u" by (simp add: uniqueIds_same)
    with v mem assms show ?thesis by (simp add: holdsAt_def findOne_save)
  next
    case False
    with v assms show ?thesis by (simp add: holdsAt_def findOne_save)
  qed
qed

lemma holdsAt_create: "create t u d = Some d' \<Longrightarrow> holdsAt P e d \<Longrightarrow> holdsAt P e d'"
  by (auto simp: create_def holdsAt_def findOne_def find_app split: if_splits option.splits)

lemma noResetCode_pre_save [simp]: "noResetCode u \<Longrightarrow> noResetCode (pre_save t u)"
  by (simp add: noResetCode_def pre_save_def dropExpired_def)

lemma noResetCode_upd [simp]:
  "noResetCode (u\<lparr>lastLogin := a\<rparr>) = noResetCode u"
  "noResetCode (u\<lparr>emailVerified := b\<rparr>) = noResetCode u"
  "noResetCode (u\<lparr>emailVerification := c\<rparr>) = noResetCode u"
  "noResetCode (u\<lparr>passwordHash := h\<rparr>) = noResetCode u"
  "noResetCode (u\<lparr>name := n\<rparr>) = noResetCode u"
  "noResetCode (u\<lparr>profile := q\<rparr>) = noResetCode u"
  "noResetCode (u\<lparr>isActive := k\<rparr>) = noResetCode u"
  "noResetCode (u\<lparr>passwordReset := None\<rparr>)"
  by (simp_all add: noResetCode_def)

text \<open>Each request keeps the ids unique.\<close>

lemma step_uniqueIds: "uniqueIds d \<Longrightarrow> uniqueIds (step ev i r d)"
proof (cases r)
  case (Signup e p n)
  assume "uniqueIds d"
  then show ?thesis using Signup
    by (auto simp: step_def route_def signup_def Let_def split: option.splits
        intro: uniqueIds_create)
qed (auto simp: step_def route_def verifyEmail_def signin_def resendVerification_def
    forgotPassword_def resetPassword_def logout_def devVerifyEmail_def devResetPassword_def
    getMe_def putMe_def deleteMe_def accountStats_def Let_def uniqueIds_save
    split: option.splits sum.splits)

lemma run_uniqueIds: "uniqueIds d \<Longrightarrow> uniqueIds (run ev rs d)"
  by (induction rs arbitrary: d) (simp_all add: step_uniqueIds)


text \<open>No request unverifies an account.\<close>

lemma step_verified:
  "uniqueIds d \<Longrightarrow> holdsAt emailVerified e d \<Longrightarrow> holdsAt emailVerified e (step ev i r d)"
proof (cases r)
  case (Signup e' p n)
  assume "holdsAt emailVerified e d"
  then show ?thesis using Signup
    by (auto simp: step_def route_def signup_def Let_def split: option.splits
        intro: holdsAt_create)
next
  case (PutMe k n q)
  assume "uniqueIds d" "holdsAt emailVerified e d"
  then show ?thesis using PutMe
    by (auto simp: step_def putMe_def Let_def split: option.splits sum.splits
        dest!: findById_mem intro!: holdsAt_save)
qed (auto simp: step_def route_def verifyEmail_def signin_def resendVerification_def
    forgotPassword_def resetPassword_def logout_def devVerifyEmail_def devResetPassword_def
    getMe_def deleteMe_def accountStats_def Let_def split: option.splits sum.splits
    dest!: findOne_mem findById_mem intro!: holdsAt_save)

lemma run_verified:
  "uniqueIds d \<Longrightarrow> holdsAt emailVerified e d \<Longrightarrow> holdsAt emailVerified e (run ev rs d)"
  by (induction rs arbitrary: d) (simp_all add: step_verified step_uniqueIds)

text \<open>
  The pending reset code of an account is one of those issued to it: a forgot-password
  request for the account adds the hash of its code, and no other request stores one.
\<close>

lemma resetWithin_mono: "H \<subseteq> H' \<Longrightarrow> resetWithin H u \<Longrightarrow> resetWithin H' u"
  by (auto simp: resetWithin_def split: option.splits)

lemma holdsAt_mono: "(\<And>u. P u \<Longrightarrow> Q u) \<Longrightarrow> holdsAt P e d \<Longrightarrow> holdsAt Q e d"
  by (auto simp: holdsAt_def split: option.splits)

lemma noResetCode_resetWithin: "noResetCode u \<Longrightarrow> resetWithin H u"
  by (simp add: noResetCode_def resetWithin_def)

lemma resetWithin_pre_save [simp]: "resetWithin H u \<Longrightarrow> resetWithin H (pre_save t u)"
  by (simp add: resetWithin_def pre_save_def dropExpired_def split: option.splits)

lemma resetWithin_upd [simp]:
  "resetWithin H (u\<lparr>lastLogin := a\<rparr>) = resetWithin H u"
  "resetWithin H (u\<lparr>emailVerified := b\<rparr>) = resetWithin H u"
  "resetWithin H (u\<lparr>emailVerification := c\<rparr>) = resetWithin H u"
  "resetWithin H (u\<lparr>passwordHash := h\<rparr>) = resetWithin H u"
  "resetWithin H (u\<lparr>name := n\<rparr>) = resetWithin H u"
  "resetWithin H (u\<lparr>profile := q\<rparr>) = resetWithin H u"
  "resetWithin H (u\<lparr>isActive := k\<rparr>) = resetWithin H u"
  "resetWithin H (u\<lparr>passwordReset := None\<rparr>)"
  "resetWithin H (u\<lparr>passwordReset := Some x\<rparr>) = (codeHash x \<in> H)"
  by (simp_all add: resetWithin_def)

lemma step_resetWithin:
  "uniqueIds d \<Longrightarrow> holdsAt (resetWithin H) e d \<Longrightarrow>
   holdsAt (resetWithin (H \<union> set (issuedHash ev e (i, r)))) e (step ev i r d)"
proof (cases r)
  case (Signup e' p n)
  assume "holdsAt (resetWithin H) e d"
  then show ?thesis using Signup
    by (auto simp: step_def route_def signup_def Let_def split: option.splits
        intro: holdsAt_create)
next
  case (PutMe k n q)
  assume "uniqueIds d" "holdsAt (resetWithin H) e d"
  then show ?thesis using PutMe
    by (auto simp: step_def putMe_def Let_def split: option.splits sum.splits
        dest!: findById_mem intro!: holdsAt_save)
next
  case (ForgotPassword e')
  assume u: "uniqueIds d" and h: "holdsAt (resetWithin H) e d"
  let ?H = "H \<union> set (issuedHash ev e (i, r))"
  have "holdsAt (resetWithin ?H) e d"
    using h by (rule holdsAt_mono [rotated]) (auto intro: resetWithin_mono)
  with u show ?thesis using ForgotPassword
    by (auto simp: step_def route_def forgotPassword_def Let_def split: option.splits
        dest!: findOne_mem intro!: holdsAt_save)
qed (auto simp: step_def route_def verifyEmail_def signin_def resendVerification_def
    resetPassword_def logout_def devVerifyEmail_def devResetPassword_def getMe_def
    deleteMe_def accountStats_def Let_def split: option.splits sum.splits
    dest!: findOne_mem findById_mem intro!: holdsAt_save)

lemma run_resetWithin:
  "uniqueIds d \<Longrightarrow> holdsAt (resetWithin H) e d \<Longrightarrow>
   holdsAt (resetWithin (H \<union> set (issuedHashes ev e rs))) e (run ev rs d)"
proof (induction rs arbitrary: d H)
  case Nil
  then show ?case by (simp add: issuedHashes_def)
next
  case (Cons a rs)
  have "holdsAt (resetWithin (H \<union> set (issuedHash ev e (fst a, snd a)))) e
          (step ev (fst a) (snd a) d)"
    using Cons.prems by (rule step_resetWithin)
  moreover have "uniqueIds (step ev (fst a) (snd a) d)"
    using Cons.prems(1) by (rule step_uniqueIds)
  ultimately have "holdsAt (resetWithin ((H \<union> set (issuedHash ev e (fst a, snd a))) \<union>
      set (issuedHashes ev e rs))) e (run ev rs (step ev (fst a) (snd a) d))"
    by (rule Cons.IH [rotated])
  then show ?case by (simp add: issuedHashes_def Un_assoc)
qed

lemma holdsAt_save_self:
  assumes "findOne e d = Some u" and "uniqueIds d" and "u_id u' = u_id u"
    and "email u' = email u" and "P (pre_save t u')"
  shows "holdsAt P e (save t u' d)"
proof -
  have "u \<in> set d" using assms(1) by (simp add: findOne_mem)
  with assms(2) have "findOne e (save t u' d) =
      map_option (\<lambda>v. if u_id v = u_id u then pre_save t u' else v) (findOne e d)"
    using assms(3,4) by (rule findOne_save)
  with assms(1,5) show ?thesis by (simp add: holdsAt_def)
qed

lemma verifyEmail_verifies:
  assumes "uniqueIds d" and ok: "status (fst (verifyEmail ev i e c d)) = 200"
  shows "holdsAt emailVerified (normalize e) (snd (verifyEmail ev i e c d))"
proof -
  obtain u where u: "findOne (normalize e) d = Some u"
    using ok
    by (cases "findOne (normalize e) d") (simp_all add: verifyEmail_def fail_def split: if_splits)
  obtain k where k: "emailVerification u = Some k"
    using ok u
    by (cases "emailVerification u") (simp_all add: verifyEmail_def fail_def split: if_splits)
  have "snd (verifyEmail ev i e c d) =
          save (saveTime i) (u\<lparr>emailVerified := True, emailVerification := None\<rparr>) d"
    using ok u k by (simp add: verifyEmail_def fail_def split: if_splits)
  then show ?thesis
    using holdsAt_save_self [OF u assms(1), of
        "u\<lparr>emailVerified := True, emailVerification := None\<rparr>" emailVerified "saveTime i"]
    by simp
qed

lemma verifyEmail_verified_fails:
  "holdsAt emailVerified (normalize e) d \<Longrightarrow> status (fst (verifyEmail ev i e c d)) = 400"
  by (auto simp: verifyEmail_def fail_def holdsAt_def split: option.splits)

lemma resetPassword_clears:
  assumes "uniqueIds d" and ok: "status (fst (resetPassword ev i e c p d)) = 200"
  shows "holdsAt noResetCode (normalize e) (snd (resetPassword ev i e c p d))"
proof -
  obtain u where u: "findOne (normalize e) d = Some u"
    using ok
    by (cases "findOne (normalize e) d")
      (simp_all add: resetPassword_def fail_def split: if_splits)
  obtain k where k: "passwordReset u = Some k"
    using ok u
    by (cases "passwordReset u") (simp_all add: resetPassword_def fail_def split: if_splits)
  have "snd (resetPassword ev i e c p d) =
          save (saveTime i)
            (u\<lparr>passwordHash := bcrypt_hash ev p (salt i), passwordReset := None\<rparr>) d"
    using ok u k by (simp add: resetPassword_def fail_def Let_def split: if_splits)
  then show ?thesis
    using holdsAt_save_self [OF u assms(1), of
        "u\<lparr>passwordHash := bcrypt_hash ev p (salt i), passwordReset := None\<rparr>" noResetCode
        "saveTime i"]
    by simp
qed

lemma resetPassword_needs_hash:
  "holdsAt (resetWithin H) (normalize e) d \<Longrightarrow> hashCode ev (trim c) \<notin> H \<Longrightarrow>
   status (fst (resetPassword ev i e c p d)) = 400"
  by (auto simp: resetPassword_def fail_def holdsAt_def resetWithin_def Let_def
      split: option.splits)

lemma verifyEmail_expired:
  "findOne (normalize e) d = Some u \<Longrightarrow> emailVerification u = Some k \<Longrightarrow> expiresAt k < now i \<Longrightarrow>
   status (fst (verifyEmail ev i e c d)) = 400"
  by (simp add: verifyEmail_def fail_def)

lemma resetPassword_expired:
  "findOne (normalize e) d = Some u \<Longrightarrow> passwordReset u = Some k \<Longrightarrow> expiresAt k < now i \<Longrightarrow>
   status (fst (resetPassword ev i e c p d)) = 400"
  by (simp add: resetPassword_def fail_def)

text \<open>
  C3 (amended). After \<open>verifyEmail\<close> has succeeded for an account, every later
  \<open>verifyEmail\<close> call for that account fails, with any code, at any time and after any
  requests in between. After \<open>resetPassword\<close> has succeeded for an account, a later
  \<open>resetPassword\<close> call for that account fails, after any requests in between, unless
  one of them was a forgot-password request that issued the account a code with the hash
  of the trimmed code now submitted. A submission after \<open>expiresAt\<close> fails for both.
\<close>

theorem codes_single_use:
  assumes "uniqueIds d"
  shows
    "(status (fst (verifyEmail ev i e c d)) = 200 \<longrightarrow> normalize e' = normalize e \<longrightarrow>
        status (fst (verifyEmail ev i' e' c'
          (run ev rs (snd (verifyEmail ev i e c d))))) = 400) \<and>
     (status (fst (resetPassword ev i e c p d)) = 200 \<longrightarrow> normalize e' = normalize e \<longrightarrow>
        hashCode ev (trim c') \<notin> set (issuedHashes ev (normalize e) rs) \<longrightarrow>
        status (fst (resetPassword ev i' e' c' p'
          (run ev rs (snd (resetPassword ev i e c p d))))) = 400) \<and>
     (\<forall>u k. findOne (normalize e) d = Some u \<and> emailVerification u = Some k \<and>
        expiresAt k < now i \<longrightarrow> status (fst (verifyEmail ev i e c d)) = 400) \<and>
     (\<forall>u k. findOne (normalize e) d = Some u \<and> passwordReset u = Some k \<and>
        expiresAt k < now i \<longrightarrow> status (fst (resetPassword ev i e c p d)) = 400)"
proof (intro conjI impI allI)
  assume ok: "status (fst (verifyEmail ev i e c d)) = 200" and same: "normalize e' = normalize e"
  let ?d = "snd (verifyEmail ev i e c d)"
  have "uniqueIds ?d"
    using assms by (simp add: verifyEmail_def uniqueIds_save split: option.splits)
  moreover have "holdsAt emailVerified (normalize e) ?d"
    using assms ok by (rule verifyEmail_verifies)
  ultimately have "holdsAt emailVerified (normalize e') (run ev rs ?d)"
    using same by (simp add: run_verified)
  then show "status (fst (verifyEmail ev i' e' c' (run ev rs ?d))) = 400"
    by (rule verifyEmail_verified_fails)
next
  assume ok: "status (fst (resetPassword ev i e c p d)) = 200"
    and same: "normalize e' = normalize e"
    and fresh: "hashCode ev (trim c') \<notin> set (issuedHashes ev (normalize e) rs)"
  let ?d = "snd (resetPassword ev i e c p d)"
  have "uniqueIds ?d"
    using assms by (simp add: resetPassword_def uniqueIds_save Let_def split: option.splits)
  moreover have "holdsAt noResetCode (normalize e) ?d"
    using assms ok by (rule resetPassword_clears)
  then have "holdsAt (resetWithin {}) (normalize e) ?d"
    by (rule holdsAt_mono [rotated]) (rule noResetCode_resetWithin)
  ultimately have "holdsAt (resetWithin ({} \<union> set (issuedHashes ev (normalize e) rs)))
      (normalize e) (run ev rs ?d)"
    by (rule run_resetWithin)
  then have "holdsAt (resetWithin (set (issuedHashes ev (normalize e) rs)))
      (normalize e') (run ev rs ?d)"
    using same by simp
  then show "status (fst (resetPassword ev i' e' c' p' (run ev rs ?d))) = 400"
    using fresh by (rule resetPassword_needs_hash)
next
  fix u k
  assume "findOne (normalize e) d = Some u \<and> emailVerification u = Some k \<and> expiresAt k < now i"
  then show "status (fst (verifyEmail ev i e c d)) = 400"
    by (simp add: verifyEmail_expired)
next
  fix u k
  assume "findOne (normalize e) d = Some u \<and> passwordReset u = Some k \<and> expiresAt k < now i"
  then show "status (fst (resetPassword ev i e c p d)) = 400"
    by (simp add: resetPassword_expired)
qed

lemmas ctrl_defs = verifyEmail_def resetPassword_def signin_def fail_def done_with_def
  findOne_def save_def pre_save_def dropExpired_def hashCode_def jwt_sign_def
  CONFIG_JWT_EXPIRES_IN_def

lemma ex1: "status (fst (verifyEmail exampleEnv exampleIo ''b@x.com'' ''123456'' [alice, bob])) = 200"
  by (simp add: ctrl_defs valid_b normalize_b example_defs trim_def isWhiteSpace_def)

lemma ex2: "status (fst (resetPassword exampleEnv exampleIo ''a@x.com'' ''654321'' ''Newpass1!''
     [alice\<lparr>passwordReset := Some \<lparr>codeHash = ''sha256:654321'', expiresAt = 1900000\<rparr>\<rparr>, bob])) = 200"
  by (simp add: ctrl_defs valid_a normalize_a example_defs trim_def isWhiteSpace_def
      validatePassword_def isUpperAZ_def isLowerAZ_def isDigit_def isSpecialChar_def)

lemma trim_digits: "trim ''123456'' = ''123456''" "trim ''654321'' = ''654321''"
  by (simp_all add: trim_def isWhiteSpace_def)

lemma issued_example:
  "issuedHashes exampleEnv ''a@x.com'' [(exampleIo, ForgotPassword ''a@x.com'')] =
     [''sha256:123456'']"
  by (simp add: issuedHashes_def normalize_a example_sel code_example)

text \<open>
  On the example data: a verified account is refused a second verification, and after a
  reset with the code \<open>654321\<close> and a forgot-password request that issues \<open>123456\<close>, the
  code \<open>654321\<close> is refused.
\<close>

theorem codes_single_use_witness:
  "status (fst (verifyEmail exampleEnv exampleIo ''B@X.Com'' ''123456''
     (run exampleEnv [(exampleIo, Signin ''b@x.com'' ''Abcd123!'')]
        (snd (verifyEmail exampleEnv exampleIo ''b@x.com'' ''123456'' [alice, bob]))))) = 400 \<and>
   status (fst (resetPassword exampleEnv exampleIo ''a@x.com'' ''654321'' ''Newpass1!''
     (run exampleEnv [(exampleIo, ForgotPassword ''a@x.com'')]
        (snd (resetPassword exampleEnv exampleIo ''a@x.com'' ''654321'' ''Newpass1!''
           [alice\<lparr>passwordReset := Some \<lparr>codeHash = ''sha256:654321'', expiresAt = 1900000\<rparr>\<rparr>,
            bob]))))) = 400"
proof -
  have u1: "uniqueIds [alice, bob]"
    and u2: "uniqueIds [alice\<lparr>passwordReset :=
               Some \<lparr>codeHash = ''sha256:654321'', expiresAt = 1900000\<rparr>\<rparr>, bob]"
    by (simp_all add: uniqueIds_def example_defs)
  show ?thesis
    using codes_single_use [OF u1, where ev = exampleEnv and i = exampleIo and e = "''b@x.com''"
        and c = "''123456''" and e' = "''B@X.Com''" and i' = exampleIo and c' = "''123456''"
        and rs = "[(exampleIo, Signin ''b@x.com'' ''Abcd123!'')]"]
      codes_single_use [OF u2, where ev = exampleEnv and i = exampleIo and e = "''a@x.com''"
        and c = "''654321''" and p = "''Newpass1!''" and e' = "''a@x.com''" and i' = exampleIo
        and c' = "''654321''" and p' = "''Newpass1!''"
        and rs = "[(exampleIo, ForgotPassword ''a@x.com'')]"]
    by (simp add: ex1 ex2 normalize_a normalize_b normalize_B issued_example trim_digits
        example_sel)
qed

lemma policy_new: "isValid (validatePassword ''Newpass1!'')"
  by (simp add: validatePassword_def isUpperAZ_def isLowerAZ_def isDigit_def isSpecialChar_def)

lemma reset_first:
  "resetPassword exampleEnv exampleIo ''a@x.com'' ''123456'' ''Newpass1!''
     [alice\<lparr>passwordReset := Some \<lparr>codeHash = ''sha256:123456'', expiresAt = 1900000\<rparr>\<rparr>, bob] =
   (done_with 200 (''Password has been reset successfully. '' @
                   ''Please sign in with your new password.''),
    [alice\<lparr>passwordHash := ''$2a$12$Newpass1!'', updatedAt := 1000001\<rparr>, bob])"
  by (simp add: resetPassword_def valid_a normalize_a policy_new trim_digits findOne_def
      example_sel save_def pre_save_def dropExpired_def alice_def bob_def)

lemma forgot_again:
  "run exampleEnv [(exampleIo, ForgotPassword ''a@x.com'')]
     [alice\<lparr>passwordHash := ''$2a$12$Newpass1!'', updatedAt := 1000001\<rparr>, bob] =
   [alice\<lparr>passwordHash := ''$2a$12$Newpass1!'', updatedAt := 1000001,
       passwordReset := Some \<lparr>codeHash = ''sha256:123456'', expiresAt = 1900000\<rparr>\<rparr>, bob]"
  by (simp add: step_def route_def validateEmailInput_def forgotPassword_def valid_a normalize_a
      findOne_def example_sel code_example Let_def save_def pre_save_def dropExpired_def
      addMinutes_def alice_def bob_def)

text \<open>
  C3 as stated fails for reset codes: the claim has every later submission of the same
  code fail. A reset with the code \<open>123456\<close> succeeds; a forgot-password request for the
  account then draws the same digits, so the account holds the hash of \<open>123456\<close> again;
  a second reset with \<open>123456\<close> is answered 200.
\<close>

theorem resetPassword_reissue_counterexample:
  "status (fst (resetPassword exampleEnv exampleIo ''a@x.com'' ''123456'' ''Newpass1!''
     [alice\<lparr>passwordReset := Some \<lparr>codeHash = ''sha256:123456'', expiresAt = 1900000\<rparr>\<rparr>,
      bob])) = 200 \<and>
   status (fst (resetPassword exampleEnv exampleIo ''a@x.com'' ''123456'' ''Newpass1!''
     (run exampleEnv [(exampleIo, ForgotPassword ''a@x.com'')]
        (snd (resetPassword exampleEnv exampleIo ''a@x.com'' ''123456'' ''Newpass1!''
           [alice\<lparr>passwordReset := Some \<lparr>codeHash = ''sha256:123456'', expiresAt = 1900000\<rparr>\<rparr>,
            bob]))))) = 200"
  unfolding reset_first snd_conv forgot_again
  by (simp add: resetPassword_def valid_a normalize_a policy_new trim_digits findOne_def
      example_sel alice_def done_with_def Let_def)

section \<open>The scenario of the specification\<close>

text \<open>
  The scenario of the specification, run on the model: a sign-up creates an unverified
  account with a pending code, a wrong code is rejected and leaves the account as it is,
  the right code verifies it, and the sign-in that follows is answered 200.
\<close>

lemma scenario_signup:
  "signup exampleEnv exampleIo ''A@x.com'' ''Abcd123!'' None [] =
     (done_with 201 (''Account created successfully. '' @
        ''Please check your email for verification code.''), [carol])"
  by (simp add: signup_def valid_A normalize_A policy_example code_example Let_def findOne_def
      create_def pre_save_def dropExpired_def newUser_def trimmedName_def
      addMinutes_def sendVerificationEmail_def sendMail_def
      valid_a example_sel carol_def)

lemma scenario_wrong_code:
  "verifyEmail exampleEnv exampleIo ''a@x.com'' ''000000'' [carol] =
     (fail 400 ''Invalid verification code'', [carol])"
  by (simp add: verifyEmail_def valid_a normalize_a findOne_def carol_def example_sel trim_def
      isWhiteSpace_def)

lemma scenario_right_code:
  "verifyEmail exampleEnv exampleIo ''a@x.com'' ''123456'' [carol] =
     (done_with 200 ''Email verified successfully! You can now sign in.'',
      [carol\<lparr>emailVerified := True, emailVerification := None\<rparr>])"
  by (simp add: verifyEmail_def valid_a normalize_a findOne_def carol_def example_sel trim_def
      isWhiteSpace_def save_def pre_save_def dropExpired_def)

lemma scenario_signin:
  "status (fst (signin exampleEnv exampleIo ''a@x.com'' ''Abcd123!''
     [carol\<lparr>emailVerified := True, emailVerification := None\<rparr>])) = 200"
  by (simp add: signin_def valid_a normalize_a findOne_def carol_def example_sel jwt_sign_def)

end
